theory Spec2Isabelle
  imports Main
begin

section \<open>Cells\<close>

text \<open>
  The controller works on the cells of the @ton/core library: a cell holds a bit string
  and an ordered sequence of child references (at most four, which the library enforces
  when a cell is built). Only ordinary cells are modelled. The content hash of a cell is
  a function of its bits and of its children, so equal cells have equal hashes; the hash
  function itself is a parameter wherever it is needed.

  A slice is a read cursor over a cell. The controller only ever loads references from
  the slices it opens (never bits), so a slice is represented by the bits of its cell
  and the references not yet loaded. \<open>slice.asBuilder()\<close> copies the remaining bits and
  then the remaining references into a fresh builder, and \<open>storeRef\<close> appends a
  reference after them.
\<close>

datatype cell = Cell (bits: "bool list") (refs: "cell list")

section \<open>Errors\<close>

text \<open>
  Every \<open>throw\<close> of the source is a value of this type. The names are those of the
  specification's taxonomy; the messages of the source are
  \<open>CodeHashMismatch\<close>: "Code hash mismatch",
  \<open>InvalidCompilationResult r\<close>: "Invalid compilation result: " followed by \<open>r\<close>,
  \<open>TooManyReferences\<close>: "Each signature cell should have at most one ref to another sig cell".
  \<open>NoMoreReferences\<close> is the library's failure of \<open>loadRef\<close> on a slice without
  references, \<open>TypeError\<close> the runtime's failure on an undefined value, and
  \<open>External\<close> an exception raised by a collaborator (compiler, storage, chain reader,
  file system, JSON parser).
\<close>

datatype compile_status = Similar | NotSimilar | CompileError | UnknownError

datatype error =
    InvalidCell
  | InvalidOperation
  | InvalidVerifierId
  | MessageExpired
  | InvalidSourcesRegistryAddress
  | InvalidVerifierBodyCell
  | InvalidSourcesRegistryBodyCell
  | InvalidDeploySourceOp
  | InvalidSignatureCell
  | InvalidSignature
  | NotInMultisigConfig
  | DuplicateSignature
  | AlreadySignedBySelf
  | TooManySignatures
  | QuorumTooSmall
  | CodeHashMismatch
  | InvalidCompilationResult compile_status
  | TooManyReferences
  | NoMoreReferences
  | TypeError
  | External string

section \<open>Appending to the signature chain\<close>

text \<open>
  \<open>addSignatureCell\<close> of controller.ts. The three equations are the three paths of the
  source: no reference remains (the new cell is stored after the node's bits); one
  reference remains (it is loaded, the call recurses into it, and the result is stored
  in a builder that holds the node's bits and no reference); after loading the first
  reference another one remains (the function throws).
\<close>

fun addSignatureCell :: "cell \<Rightarrow> cell \<Rightarrow> error + cell" where
  "addSignatureCell (Cell bs []) sigCell = Inr (Cell bs [sigCell])"
| "addSignatureCell (Cell bs [child]) sigCell =
     (case addSignatureCell child sigCell of
        Inl e \<Rightarrow> Inl e
      | Inr c \<Rightarrow> Inr (Cell bs [c]))"
| "addSignatureCell (Cell bs (child # other # rest)) sigCell = Inl TooManyReferences"

text \<open>
  \<open>path_to bss t\<close> is the cell reached from \<open>t\<close> by wrapping it in single-reference
  nodes whose bits are \<open>bss\<close>, outermost first: the nodes visited on the way to \<open>t\<close>.
\<close>

fun path_to :: "bool list list \<Rightarrow> cell \<Rightarrow> cell" where
  "path_to [] t = t"
| "path_to (bs # bss) t = Cell bs [path_to bss t]"

section \<open>Data of the controller\<close>

text \<open>
  The types of \<open>./types\<close> are not among the sources; the records below carry the fields
  that controller.ts reads and writes. \<open>null\<close> and \<open>undefined\<close> are \<open>None\<close>.
  A JavaScript condition on a string or on \<open>null\<close> is true exactly when the value is a
  non-empty string (\<open>truthy\<close>).
\<close>

datatype Compiler = Func | Fift | Tact | Tolk

record CompilerSettings =
  commandLine :: "string option"
  otherSettings :: "(string \<times> string) list"

record SourceFile =
  filename :: string
  flags :: "(string \<times> bool) list"

record CompileResult =
  cr_result :: compile_status
  cr_error :: "string option"
  cr_hash :: "string option"
  cr_compilerSettings :: CompilerSettings
  cr_sources :: "SourceFile list"

text \<open>
  An entry of \<open>SourceItem.sources\<close> is \<open>{url: f, ...compileResult.sources[i]}\<close>: the
  locator, and the fields of the compiled source when there is one at that index.
  An entry of the payload rebuilt by \<open>sign\<close> is \<open>{...s, path: s.filename}\<close>.
\<close>

record StoredSource =
  url :: string
  compiled :: "SourceFile option"

record SourceToVerify =
  path :: string
  stored :: "StoredSource option"

record SourceVerifyPayload =
  p_sources :: "SourceToVerify list"
  p_compiler :: Compiler
  p_compilerSettings :: CompilerSettings
  p_knownContractAddress :: string
  p_knownContractHash :: string
  p_tmpDir :: string
  p_senderAddress :: string

record SourceItem =
  si_compilerSettings :: "CompilerSettings option"
  si_compiler :: Compiler
  si_hash :: string
  si_verificationDate :: nat
  si_sources :: "StoredSource list"
  si_knownContractAddress :: string

record VerifyResult =
  compileResult :: CompileResult
  sig :: "string option"
  ipfsLink :: "string option"
  msgCell :: "cell option"

record ControllerConfig =
  verifierId :: string
  privateKey :: string
  sourcesRegistryAddress :: string
  allowReverification :: bool

record KeyPair =
  publicKey :: "bool list"
  secretKey :: "bool list"

record VerifierConfig =
  quorum :: nat
  verifiers :: "bool list list"

text \<open>What \<open>validateMessageCell\<close> returns to \<open>sign\<close>.\<close>

record ValidatedMessage =
  ipfsPointer :: string
  codeCellHash :: string
  senderAddress :: "bool list"
  queryId :: nat

definition truthy :: "string option \<Rightarrow> bool" where
  "truthy v = (case v of None \<Rightarrow> False | Some s \<Rightarrow> s \<noteq> [])"

section \<open>Collaborators and effects\<close>

text \<open>
  The fields of the \<open>Controller\<close> class. The storage provider, the compilers and the
  chain reader are external services: each call is a function of its arguments that
  either raises (\<open>Inl\<close>) or answers (\<open>Inr\<close>). \<open>VERIFIER_SHA256\<close> and \<open>keypair\<close> are
  computed once by the constructor from the configuration.
\<close>

record Controller =
  ipfs_write :: "(string \<times> string) list \<Rightarrow> bool \<Rightarrow> error + string list"
  ipfs_writeFromContent :: "string list \<Rightarrow> bool \<Rightarrow> error + string list"
  ipfs_read :: "string \<Rightarrow> error + string"
  keypair :: KeyPair
  VERIFIER_SHA256 :: "bool list"
  config :: ControllerConfig
  compilers :: "Compiler \<Rightarrow> SourceVerifyPayload \<Rightarrow> error + CompileResult"
  isProofDeployed :: "string \<Rightarrow> string \<Rightarrow> error + bool option"
  getVerifierConfig :: "string \<Rightarrow> string \<Rightarrow> error + VerifierConfig"

text \<open>
  What controller.ts imports and the sources do not contain: library functions
  (\<open>path.join\<close>, \<open>JSON\<close>, the file system, base64, the cell hash and the detached
  signature of tweetnacl) and the modules \<open>./utils\<close>, \<open>./cell-builders\<close> and
  \<open>./validate-message-cell\<close> of the repository. They are parameters of the model.
  \<open>getNowHourRoundedDown\<close> and \<open>random64BitNumber\<close> are the values the two functions
  return during the call.
\<close>

record Imports =
  path_join :: "string \<Rightarrow> string \<Rightarrow> string"
  mkdirp :: "string \<Rightarrow> error + unit"
  writeFile :: "string \<Rightarrow> string \<Rightarrow> error + unit"
  json_parse :: "string \<Rightarrow> error + SourceItem"
  json_stringify :: "SourceItem \<Rightarrow> string"
  toBase64 :: "bool list \<Rightarrow> string"
  address_toString :: "bool list \<Rightarrow> string"
  cell_hash :: "cell \<Rightarrow> bool list"
  sign_detached :: "bool list \<Rightarrow> bool list \<Rightarrow> bool list"
  getNowHourRoundedDown :: nat
  random64BitNumber :: nat
  cellToSign :: "string \<Rightarrow> nat \<Rightarrow> string \<Rightarrow> string option \<Rightarrow> string \<Rightarrow> bool list \<Rightarrow> error + cell"
  verifierRegistryForwardMessage :: "nat \<Rightarrow> cell \<Rightarrow> cell \<Rightarrow> cell"
  validateMessageCell ::
    "cell \<Rightarrow> bool list \<Rightarrow> string \<Rightarrow> KeyPair \<Rightarrow> VerifierConfig \<Rightarrow> error + ValidatedMessage"

text \<open>
  The effects a call performs, in the order it performs them. \<open>SignatureCell m\<close> is the
  signing of the hash of \<open>m\<close> with the verifier's secret key; \<open>ValidateMessageCell\<close>
  marks the validation of the incoming message.
\<close>

datatype event =
    CompilerVerify Compiler SourceVerifyPayload
  | IsProofDeployed string string
  | IpfsWrite "(string \<times> string) list"
  | IpfsWriteFromContent "string list"
  | IpfsRead string
  | GetVerifierConfig string string
  | ValidateMessageCell cell
  | Mkdirp string
  | WriteFile string string
  | SignatureCell cell

type_synonym 'a io = "event list \<times> (error + 'a)"

definition done_with :: "'a \<Rightarrow> 'a io" where
  "done_with x = ([], Inr x)"

definition throw :: "error \<Rightarrow> 'a io" where
  "throw e = ([], Inl e)"

text \<open>\<open>await ev r\<close>: the call \<open>ev\<close> is made and answers \<open>r\<close>.\<close>

definition await :: "event \<Rightarrow> error + 'a \<Rightarrow> 'a io" where
  "await ev r = ([ev], r)"

text \<open>Sequencing: an exception ends the call, with the effects performed so far.\<close>

definition and_then :: "'a io \<Rightarrow> ('a \<Rightarrow> 'b io) \<Rightarrow> 'b io" where
  "and_then m f =
     (case m of
        (t, Inl e) \<Rightarrow> (t, Inl e)
      | (t, Inr x) \<Rightarrow> (case f x of (t', r) \<Rightarrow> (t @ t', r)))"

section \<open>Signature cells\<close>

text \<open>
  Modelled from the spec: \<open>signatureCell\<close> of \<open>./cell-builders\<close>, which is not among the
  sources. A signature node is the 64-byte detached signature of the payload's content
  hash followed by the 32-byte public key, without child reference (section 3,
  SignatureNode; section 4.4, "Sign the payload hash with the running verifier's private
  key, producing the initial single-node signature chain"). The suite builds the same
  cell in \<open>makeSigCell\<close>.
\<close>

record SignatureCellResult =
  sc_sig :: "bool list"
  sc_sigCell :: cell

definition signatureCell :: "Imports \<Rightarrow> cell \<Rightarrow> KeyPair \<Rightarrow> SignatureCellResult" where
  "signatureCell im msgToSign kp =
     (let s = sign_detached im (cell_hash im msgToSign) (secretKey kp)
      in \<lparr>sc_sig = s, sc_sigCell = Cell (s @ publicKey kp) []\<rparr>)"

section \<open>Proposing: addSource\<close>

text \<open>The result returned when the proof is already deployed.\<close>

definition alreadyDeployed :: "CompileResult \<Rightarrow> VerifyResult" where
  "alreadyDeployed cr =
     \<lparr>compileResult =
        \<lparr>cr_result = UnknownError,
         cr_error = Some ''Contract is already deployed'',
         cr_hash = None,
         cr_compilerSettings = cr_compilerSettings cr,
         cr_sources = cr_sources cr\<rparr>,
      sig = None, ipfsLink = None, msgCell = None\<rparr>"

text \<open>
  \<open>fileLocators.map((f, i) => ({url: f, ...compileResult.sources[i]}))\<close>: one entry per
  locator; an index beyond the compiled sources contributes no further field.
\<close>

definition storedSources :: "string list \<Rightarrow> SourceFile list \<Rightarrow> StoredSource list" where
  "storedSources fileLocators srcs =
     map (\<lambda>(i, f). \<lparr>url = f, compiled = (if i < length srcs then Some (srcs ! i) else None)\<rparr>)
       (enumerate 0 fileLocators)"

text \<open>
  The part of \<open>addSource\<close> after the two early returns: upload of the sources, upload of
  the source record, signature and message. \<open>hash\<close> is \<open>compileResult.hash\<close>, which the
  guard of \<open>addSource\<close> has found to be a non-empty string.
\<close>

definition publish ::
    "Imports \<Rightarrow> Controller \<Rightarrow> SourceVerifyPayload \<Rightarrow> CompileResult \<Rightarrow> string \<Rightarrow> VerifyResult io" where
  "publish im c verificationPayload cr hash =
     (let sourcesToUpload =
            map (\<lambda>s. (path_join im (p_tmpDir verificationPayload) (filename s), filename s))
              (cr_sources cr)
      in and_then (await (IpfsWrite sourcesToUpload) (ipfs_write c sourcesToUpload True))
      (\<lambda>fileLocators.
         let sourceSpec =
               \<lparr>si_compilerSettings = Some (cr_compilerSettings cr),
                si_compiler = p_compiler verificationPayload,
                si_hash = hash,
                si_verificationDate = getNowHourRoundedDown im,
                si_sources = storedSources fileLocators (cr_sources cr),
                si_knownContractAddress = p_knownContractAddress verificationPayload\<rparr>;
             content = [json_stringify im sourceSpec]
         in and_then (await (IpfsWriteFromContent content) (ipfs_writeFromContent c content True))
         (\<lambda>links.
            let link = (case links of [] \<Rightarrow> None | l # _ \<Rightarrow> Some l);
                qid = random64BitNumber im
            in and_then
                 ([], cellToSign im (p_senderAddress verificationPayload) qid hash link
                        (sourcesRegistryAddress (config c)) (VERIFIER_SHA256 c))
            (\<lambda>msgToSign.
               and_then (await (SignatureCell msgToSign) (Inr (signatureCell im msgToSign (keypair c))))
               (\<lambda>sc. done_with
                  \<lparr>compileResult = cr,
                   sig = Some (toBase64 im (sc_sig sc)),
                   ipfsLink = link,
                   msgCell = Some (verifierRegistryForwardMessage im qid msgToSign (sc_sigCell sc))\<rparr>)))))"

text \<open>
  \<open>Controller.addSource\<close>. Past the guard \<open>compileResult.hash\<close> is a non-empty string;
  the branch for a missing hash is there for totality and is never taken.
\<close>

definition addSource :: "Imports \<Rightarrow> Controller \<Rightarrow> SourceVerifyPayload \<Rightarrow> VerifyResult io" where
  "addSource im c verificationPayload =
     and_then
       (await (CompilerVerify (p_compiler verificationPayload) verificationPayload)
          (compilers c (p_compiler verificationPayload) verificationPayload))
     (\<lambda>cr.
        if truthy (cr_error cr) \<or> cr_result cr \<noteq> Similar \<or> \<not> truthy (cr_hash cr)
        then done_with \<lparr>compileResult = cr, sig = None, ipfsLink = None, msgCell = None\<rparr>
        else
          (case cr_hash cr of
             None \<Rightarrow> done_with \<lparr>compileResult = cr, sig = None, ipfsLink = None, msgCell = None\<rparr>
           | Some hash \<Rightarrow>
               if \<not> allowReverification (config c)
               then and_then
                      (await (IsProofDeployed (p_knownContractHash verificationPayload)
                                (verifierId (config c)))
                         (isProofDeployed c (p_knownContractHash verificationPayload)
                            (verifierId (config c))))
                    (\<lambda>isDeployed.
                       if isDeployed = Some True then done_with (alreadyDeployed cr)
                       else publish im c verificationPayload cr hash)
               else publish im c verificationPayload cr hash))"

section \<open>Co-signing: sign\<close>

text \<open>
  \<open>filePath.substring(0, filePath.lastIndexOf("/"))\<close>: the path up to its last slash,
  and the empty string when it has none.
\<close>

definition dirOf :: "string \<Rightarrow> string" where
  "dirOf filePath = rev (drop 1 (dropWhile (\<lambda>ch. ch \<noteq> CHR ''/'') (rev filePath)))"

text \<open>
  The callback of \<open>json.sources.map\<close>, an async function, runs in three turns: it calls
  \<open>ipfsProvider.read\<close> and waits; with the content it joins the path (\<open>path.join\<close>
  raises a TypeError when the entry has no file name), calls \<open>mkdirp\<close> and waits; then
  it calls \<open>writeFile\<close>, waits, and returns the entry with its \<open>path\<close>. A callback that
  has reached the second turn is a \<open>Download\<close>.
\<close>

record Download =
  d_source :: StoredSource
  d_file :: SourceFile
  d_filePath :: string
  d_content :: string

definition startDownload :: "Imports \<Rightarrow> Controller \<Rightarrow> string \<Rightarrow> StoredSource \<Rightarrow> error + Download" where
  "startDownload im c tmpDir s =
     (case ipfs_read c (url s) of
        Inl e \<Rightarrow> Inl e
      | Inr content \<Rightarrow>
          (case compiled s of
             None \<Rightarrow> Inl TypeError
           | Some f \<Rightarrow>
               Inr \<lparr>d_source = s, d_file = f,
                    d_filePath = path_join im tmpDir (filename f), d_content = content\<rparr>))"

fun failures :: "(error + 'a) list \<Rightarrow> error list" where
  "failures [] = []"
| "failures (Inl e # rs) = e # failures rs"
| "failures (Inr x # rs) = failures rs"

fun successes :: "(error + 'a) list \<Rightarrow> 'a list" where
  "successes [] = []"
| "successes (Inl e # rs) = successes rs"
| "successes (Inr x # rs) = x # successes rs"

text \<open>The callbacks whose call, one for each in list order, was answered without an error.\<close>

fun continuing :: "('a \<Rightarrow> error + unit) \<Rightarrow> 'a list \<Rightarrow> 'a list" where
  "continuing call [] = []"
| "continuing call (d # ds) =
     (case call d of Inl e \<Rightarrow> continuing call ds | Inr u \<Rightarrow> d # continuing call ds)"

text \<open>
  \<open>Promise.all\<close> over the callbacks. \<open>map\<close> starts every callback before any of them
  goes on, so every \<open>read\<close> is called first, in list order. The callbacks then advance
  independently; the model takes the schedule in which they advance in step, each in list
  order: every \<open>mkdirp\<close> of the callbacks that got their content and have a file name,
  then every \<open>writeFile\<close> of those whose directory was made. A callback that fails does
  not stop the others: their calls are made all the same. \<open>Promise.all\<close> is rejected
  with the first failure in this order, and fulfilled with the results in list order when
  no callback fails. No property below depends on the order among the downloads.
\<close>

definition downloadAll :: "Imports \<Rightarrow> Controller \<Rightarrow> string \<Rightarrow> StoredSource list \<Rightarrow> SourceToVerify list io" where
  "downloadAll im c tmpDir ss =
     (let started = map (startDownload im c tmpDir) ss;
          making = successes started;
          made = map (\<lambda>d. mkdirp im (dirOf (d_filePath d))) making;
          writing = continuing (\<lambda>d. mkdirp im (dirOf (d_filePath d))) making;
          written = map (\<lambda>d. writeFile im (d_filePath d) (d_content d)) writing
      in (map (\<lambda>s. IpfsRead (url s)) ss
            @ map (\<lambda>d. Mkdirp (dirOf (d_filePath d))) making
            @ map (\<lambda>d. WriteFile (d_filePath d) (d_content d)) writing,
          case failures started @ failures made @ failures written of
            e # es \<Rightarrow> Inl e
          | [] \<Rightarrow> Inr (map (\<lambda>d. \<lparr>path = filename (d_file d), stored = Some (d_source d)\<rparr>) making)))"

text \<open>\<open>commandLine.replace(/^func/, "")\<close>: the first four characters are removed when they are \<open>func\<close>.\<close>

definition replaceFunc :: "string \<Rightarrow> string" where
  "replaceFunc cmd = (if take 4 cmd = ''func'' then drop 4 cmd else cmd)"

text \<open>
  The settings replayed by \<open>sign\<close>:
  \<open>{...json.compilerSettings, commandLine: json.compilerSettings?.commandLine?.replace(/^func/, "")}\<close>.
\<close>

definition replaySettings :: "CompilerSettings option \<Rightarrow> CompilerSettings" where
  "replaySettings settings =
     \<lparr>commandLine = (case settings of None \<Rightarrow> None | Some cs \<Rightarrow> map_option replaceFunc (commandLine cs)),
      otherSettings = (case settings of None \<Rightarrow> [] | Some cs \<Rightarrow> otherSettings cs)\<rparr>"

definition sourceToVerify ::
    "Imports \<Rightarrow> SourceItem \<Rightarrow> SourceToVerify list \<Rightarrow> string \<Rightarrow> bool list \<Rightarrow> SourceVerifyPayload" where
  "sourceToVerify im json sources tmpDir sender =
     \<lparr>p_sources = sources,
      p_compiler = si_compiler json,
      p_compilerSettings = replaySettings (si_compilerSettings json),
      p_knownContractAddress = si_knownContractAddress json,
      p_knownContractHash = si_hash json,
      p_tmpDir = tmpDir,
      p_senderAddress = address_toString im sender\<rparr>"

text \<open>
  The last statements of \<open>sign\<close>: the slice over the root loads the first reference
  (the signed message), signs it, loads the second reference (the head of the chain),
  appends, and rebuilds the root from the slice (its bits and the references that were
  not loaded), the message and the updated chain.
\<close>

definition appendSignature :: "Imports \<Rightarrow> Controller \<Rightarrow> cell \<Rightarrow> cell io" where
  "appendSignature im c cell =
     (case refs cell of
        [] \<Rightarrow> throw NoMoreReferences
      | msgToSign # rest \<Rightarrow>
          and_then (await (SignatureCell msgToSign) (Inr (signatureCell im msgToSign (keypair c))))
          (\<lambda>sc. case rest of
                  [] \<Rightarrow> throw NoMoreReferences
                | sigs # rest' \<Rightarrow>
                    (case addSignatureCell sigs (sc_sigCell sc) of
                       Inl e \<Rightarrow> throw e
                     | Inr updateSigCell \<Rightarrow>
                         done_with (Cell (bits cell) (rest' @ [msgToSign, updateSigCell])))))"

text \<open>
  \<open>Controller.sign\<close>, from the decoded root cell to the root cell it serialises; the
  codec of the library (\<open>Cell.fromBoc\<close>, \<open>toBoc\<close>) is outside the model.
\<close>

definition sign :: "Imports \<Rightarrow> Controller \<Rightarrow> cell \<Rightarrow> string \<Rightarrow> cell io" where
  "sign im c cell tmpDir =
     and_then
       (await (GetVerifierConfig (verifierId (config c)) (sourcesRegistryAddress (config c)))
          (getVerifierConfig c (verifierId (config c)) (sourcesRegistryAddress (config c))))
     (\<lambda>verifierConfig.
     and_then
       (await (ValidateMessageCell cell)
          (validateMessageCell im cell (VERIFIER_SHA256 c) (sourcesRegistryAddress (config c))
             (keypair c) verifierConfig))
     (\<lambda>v.
     and_then (await (IpfsRead (ipfsPointer v)) (ipfs_read c (ipfsPointer v)))
     (\<lambda>sourceTemp.
     and_then ([], json_parse im sourceTemp)
     (\<lambda>json.
        if si_hash json \<noteq> codeCellHash v then throw CodeHashMismatch
        else
          and_then (downloadAll im c tmpDir (si_sources json))
          (\<lambda>sources.
             let payload = sourceToVerify im json sources tmpDir (senderAddress v)
             in and_then
                  (await (CompilerVerify (si_compiler json) payload)
                     (compilers c (si_compiler json) payload))
                (\<lambda>cr.
                   if cr_result cr \<noteq> Similar
                   then throw (InvalidCompilationResult (cr_result cr))
                   else appendSignature im c cell))))))"

section \<open>Message validation\<close>

text \<open>
  The module \<open>./validate-message-cell\<close> is not among the sources; \<open>sign\<close> takes it as
  the parameter \<open>validateMessageCell\<close>. This section gives one such function, written
  from sections 3, 4.2 and 4.3 of the specification and from the suite of the
  controller, which exercises the validation through \<open>controller.sign\<close>.

  What the validation needs from outside: the current time in seconds, the two operation
  codes of \<open>./cell-builders\<close>, the verification of a detached signature, the content
  hash of a cell, the decoding of an address from a bit string (the address and the bits
  that follow it), and the textual forms of an address, of a hash and of a content
  pointer blob.
\<close>

record Protocol =
  now :: nat
  FORWARD_MESSAGE_OP :: nat
  DEPLOY_SOURCE_OP :: nat
  verify_detached :: "bool list \<Rightarrow> bool list \<Rightarrow> bool list \<Rightarrow> bool"
  hashOf :: "cell \<Rightarrow> bool list"
  loadAddress :: "bool list \<Rightarrow> (bool list \<times> bool list) option"
  addressString :: "bool list \<Rightarrow> string"
  hashString :: "bool list \<Rightarrow> string"
  pointerString :: "cell \<Rightarrow> string"

text \<open>An unsigned integer stored most significant bit first.\<close>

definition toNat :: "bool list \<Rightarrow> nat" where
  "toNat bs = foldl (\<lambda>n b. 2 * n + (if b then 1 else 0)) 0 bs"

fun uintBits :: "nat \<Rightarrow> nat \<Rightarrow> bool list" where
  "uintBits 0 v = []"
| "uintBits (Suc w) v = uintBits w (v div 2) @ [odd v]"

record SignedPayload =
  sp_verifierIdHash :: "bool list"
  sp_expiresAt :: nat
  sp_senderAddress :: "bool list"
  sp_sourcesRegistryAddress :: "bool list"
  sp_deploySource :: cell

record DeploySourcePayload =
  ds_opCode :: nat
  ds_queryId :: nat
  ds_verifierIdHash :: "bool list"
  ds_codeHash :: "bool list"
  ds_contentPointer :: cell

text \<open>
  Modelled from the spec: the decoding of the SignedPayload (section 3: verifier identity
  hash of 32 bytes, expiry as uint32, sender address, registry address, the deploy-source
  payload by reference). \<open>None\<close> when the cell "lacks the expected bit-width fields or
  its one required child reference" (section 4.2, step 3).
\<close>

definition decodeSignedPayload :: "Protocol \<Rightarrow> cell \<Rightarrow> SignedPayload option" where
  "decodeSignedPayload pr body =
     (if length (bits body) < 256 + 32 \<or> refs body = [] then None
      else case loadAddress pr (drop (256 + 32) (bits body)) of
             None \<Rightarrow> None
           | Some (sender, rest) \<Rightarrow>
               (case loadAddress pr rest of
                  None \<Rightarrow> None
                | Some (registry, rest') \<Rightarrow>
                    Some \<lparr>sp_verifierIdHash = take 256 (bits body),
                          sp_expiresAt = toNat (take 32 (drop 256 (bits body))),
                          sp_senderAddress = sender,
                          sp_sourcesRegistryAddress = registry,
                          sp_deploySource = hd (refs body)\<rparr>))"

text \<open>
  Modelled from the spec: the decoding of the DeploySourcePayload (section 3: operation
  code as uint32, query id as uint64, verifier identity hash and code hash of 32 bytes
  each, the content pointer as a reference blob). \<open>None\<close> when it is "missing/short"
  (section 4.2, step 7).
\<close>

definition decodeDeploySource :: "cell \<Rightarrow> DeploySourcePayload option" where
  "decodeDeploySource ds =
     (if length (bits ds) < 32 + 64 + 256 + 256 \<or> refs ds = [] then None
      else Some \<lparr>ds_opCode = toNat (take 32 (bits ds)),
                 ds_queryId = toNat (take 64 (drop 32 (bits ds))),
                 ds_verifierIdHash = take 256 (drop (32 + 64) (bits ds)),
                 ds_codeHash = take 256 (drop (32 + 64 + 256) (bits ds)),
                 ds_contentPointer = hd (refs ds)\<rparr>)"

text \<open>
  Modelled from the spec: the walk of the Multisig Validator (section 4.3) over the
  signature chain, head to tail. For each node, in the order of the specification: the
  node must hold exactly a signature and a key and at most one child reference
  (\<open>InvalidSignatureCell\<close>); the signature must verify against the message hash and the
  key (\<open>InvalidSignature\<close>); the key must be one of the configured verifiers
  (\<open>NotInMultisigConfig\<close>); a key seen before is a \<open>DuplicateSignature\<close>; "track total
  count walked; if it exceeds \<open>quorum\<close>", \<open>TooManySignatures\<close>. \<open>count\<close> is the number
  of nodes walked before this one. The result is the list of the keys of the chain, in
  order.
\<close>

fun walkSignatures ::
    "Protocol \<Rightarrow> VerifierConfig \<Rightarrow> bool list \<Rightarrow> bool list list \<Rightarrow> nat \<Rightarrow> cell \<Rightarrow> error + bool list list" where
  "walkSignatures pr cfg messageHash seen count (Cell bs rs) =
     (if length bs \<noteq> 512 + 256 \<or> 1 < length rs then Inl InvalidSignatureCell
      else if \<not> verify_detached pr messageHash (take 512 bs) (drop 512 bs) then Inl InvalidSignature
      else if drop 512 bs \<notin> set (verifiers cfg) then Inl NotInMultisigConfig
      else if drop 512 bs \<in> set seen then Inl DuplicateSignature
      else if quorum cfg < Suc count then Inl TooManySignatures
      else (case rs of
              [] \<Rightarrow> Inr (seen @ [drop 512 bs])
            | next # other \<Rightarrow>
                walkSignatures pr cfg messageHash (seen @ [drop 512 bs]) (Suc count) next))"

text \<open>
  Modelled from the spec: the Multisig Validator (section 4.3). "\<open>quorum <= 1\<close>: fail
  \<open>QuorumTooSmall\<close> before any signature is inspected", then the walk, no node counted
  yet. A chain of up to quorum-many acceptable nodes is accepted (section 8, quorum
  monotonicity).
\<close>

definition validateSignatures ::
    "Protocol \<Rightarrow> VerifierConfig \<Rightarrow> bool list \<Rightarrow> cell \<Rightarrow> error + bool list list" where
  "validateSignatures pr cfg messageHash head =
     (if quorum cfg \<le> 1 then Inl QuorumTooSmall
      else walkSignatures pr cfg messageHash [] 0 head)"

text \<open>
  Modelled from the spec: the Message Validator (section 4.2, steps 1 to 8, each check in
  the order given there) of \<open>./validate-message-cell\<close>, on the decoded root. Its result
  is the validated output of step 8. A root with fewer than 96 bits is an \<open>InvalidCell\<close>
  (suite, "no query id").
\<close>

definition validateEnvelope ::
    "Protocol \<Rightarrow> cell \<Rightarrow> bool list \<Rightarrow> string \<Rightarrow> error + ValidatedMessage" where
  "validateEnvelope pr cell verifierIdHash registry =
     (if length (refs cell) < 2 \<or> length (bits cell) < 32 + 64 then Inl InvalidCell
      else if toNat (take 32 (bits cell)) \<noteq> FORWARD_MESSAGE_OP pr then Inl InvalidOperation
      else case decodeSignedPayload pr (refs cell ! 0) of
        None \<Rightarrow> Inl InvalidVerifierBodyCell
      | Some sp \<Rightarrow>
          if sp_verifierIdHash sp \<noteq> verifierIdHash then Inl InvalidVerifierId
          else if sp_expiresAt sp \<le> now pr then Inl MessageExpired
          else if addressString pr (sp_sourcesRegistryAddress sp) \<noteq> registry
          then Inl InvalidSourcesRegistryAddress
          else case decodeDeploySource (sp_deploySource sp) of
            None \<Rightarrow> Inl InvalidSourcesRegistryBodyCell
          | Some ds \<Rightarrow>
              if ds_opCode ds \<noteq> DEPLOY_SOURCE_OP pr then Inl InvalidDeploySourceOp
              else if ds_verifierIdHash ds \<noteq> verifierIdHash then Inl InvalidVerifierId
              else Inr \<lparr>ipfsPointer = pointerString pr (ds_contentPointer ds),
                        codeCellHash = hashString pr (ds_codeHash ds),
                        senderAddress = sp_senderAddress sp,
                        queryId = toNat (take 64 (drop 32 (bits cell)))\<rparr>)"

text \<open>
  Modelled from the spec: \<open>validateMessageCell\<close> of \<open>./validate-message-cell\<close>, with the
  arguments \<open>sign\<close> passes to it. The Message Validator, then the Multisig Validator
  over the second child reference of the root with the hash of the first child as
  message hash (section 4.3), then the checks of a co-sign attempt. A message is
  "terminal once signature count equals quorum" (section 3), and "a 4th cosign attempt
  by any party fails \<open>TooManySignatures\<close>" when the quorum is 3 and the message carries 3
  signatures (section 8; the suite has the same with a quorum of 2, "More signatures
  than need"): the signature about to be added is counted with those of the chain, before
  the running verifier is looked at. Then the key of the running verifier must not be in
  the validated chain (\<open>AlreadySignedBySelf\<close>, section 4.4) and, as the suite requires
  ("Sig does not belong to verifier id"), it must be one of the configured verifiers.
\<close>

definition validateMessageCell_spec ::
    "Protocol \<Rightarrow> cell \<Rightarrow> bool list \<Rightarrow> string \<Rightarrow> KeyPair \<Rightarrow> VerifierConfig \<Rightarrow> error + ValidatedMessage" where
  "validateMessageCell_spec pr cell verifierIdHash registry kp cfg =
     (case validateEnvelope pr cell verifierIdHash registry of
        Inl e \<Rightarrow> Inl e
      | Inr v \<Rightarrow>
          (case validateSignatures pr cfg (hashOf pr (refs cell ! 0)) (refs cell ! 1) of
             Inl e \<Rightarrow> Inl e
           | Inr keys \<Rightarrow>
               if quorum cfg < Suc (length keys) then Inl TooManySignatures
               else if publicKey kp \<in> set keys then Inl AlreadySignedBySelf
               else if publicKey kp \<notin> set (verifiers cfg) then Inl NotInMultisigConfig
               else Inr v))"


section \<open>A concrete setting\<close>

text \<open>
  A small world on which the functions above can be run: bit strings are printed as
  strings of 0 and 1, an address takes 267 bits, the hash of a cell is made of its
  first 256 bits, a signature is the signed hash followed by the key, and the secret
  key of a verifier is its public key. The verifiers A, B and C of the configuration
  have the keys 1, 2 and 3.
\<close>

definition bitString :: "bool list \<Rightarrow> string" where
  "bitString bs = map (\<lambda>b. if b then CHR ''1'' else CHR ''0'') bs"

definition ex_hash :: "cell \<Rightarrow> bool list" where
  "ex_hash m = take 256 (bits m @ replicate 256 False)"

definition ex_protocol :: Protocol where
  "ex_protocol =
     \<lparr>now = 1000, FORWARD_MESSAGE_OP = 7, DEPLOY_SOURCE_OP = 9,
      verify_detached = (\<lambda>h s k. s = h @ k),
      hashOf = ex_hash,
      loadAddress = (\<lambda>bs. if length bs < 267 then None else Some (take 267 bs, drop 267 bs)),
      addressString = bitString,
      hashString = bitString,
      pointerString = (\<lambda>blob. bitString (drop 8 (bits blob)))\<rparr>"

definition ex_pub :: "nat \<Rightarrow> bool list" where
  "ex_pub n = uintBits 256 n"

definition ex_key :: "nat \<Rightarrow> KeyPair" where
  "ex_key n = \<lparr>publicKey = ex_pub n, secretKey = ex_pub n\<rparr>"

definition ex_verifierIdHash :: "bool list" where
  "ex_verifierIdHash = uintBits 256 77"

definition ex_registry :: "bool list" where
  "ex_registry = True # replicate 266 False"

definition ex_codeHash :: "bool list" where
  "ex_codeHash = uintBits 256 5"

definition ex_deploySource :: cell where
  "ex_deploySource =
     Cell (uintBits 32 9 @ uintBits 64 0 @ ex_verifierIdHash @ ex_codeHash)
       [Cell (uintBits 8 1 @ [True, False]) []]"

definition ex_payload :: cell where
  "ex_payload =
     Cell (ex_verifierIdHash @ uintBits 32 2000 @ replicate 267 False @ ex_registry)
       [ex_deploySource]"

text \<open>The signature node of verifier \<open>n\<close> over the payload, followed by the nodes \<open>rs\<close>.\<close>

definition ex_sigCell :: "nat \<Rightarrow> cell list \<Rightarrow> cell" where
  "ex_sigCell n rs = Cell ((ex_hash ex_payload @ ex_pub n) @ ex_pub n) rs"

text \<open>A node with the key of verifier \<open>n\<close> and its signature over another hash.\<close>

definition ex_forgedCell :: "nat \<Rightarrow> cell" where
  "ex_forgedCell n = Cell ((ex_codeHash @ ex_pub n) @ ex_pub n) []"

definition ex_message :: "cell list \<Rightarrow> cell" where
  "ex_message rs = Cell (uintBits 32 7 @ uintBits 64 0) rs"

definition ex_compileResult :: "compile_status \<Rightarrow> string option \<Rightarrow> string option \<Rightarrow> CompileResult" where
  "ex_compileResult r e h =
     \<lparr>cr_result = r, cr_error = e, cr_hash = h,
      cr_compilerSettings = \<lparr>commandLine = Some ''func -SPA main.fc'', otherSettings = [(''funcVersion'', ''0.4.0'')]\<rparr>,
      cr_sources = [\<lparr>filename = ''main.fc'', flags = []\<rparr>]\<rparr>"

definition ex_record :: "Compiler \<Rightarrow> string \<Rightarrow> SourceItem" where
  "ex_record k h =
     \<lparr>si_compilerSettings =
        Some \<lparr>commandLine = Some ''func -SPA main.fc'', otherSettings = [(''funcVersion'', ''0.4.0'')]\<rparr>,
      si_compiler = k,
      si_hash = h,
      si_verificationDate = 3600,
      si_sources = [\<lparr>url = ''src'', compiled = Some \<lparr>filename = ''main.fc'', flags = []\<rparr>\<rparr>],
      si_knownContractAddress = ''N/A''\<rparr>"

definition ex_config :: "nat \<Rightarrow> VerifierConfig" where
  "ex_config q = \<lparr>quorum = q, verifiers = [ex_pub 1, ex_pub 2, ex_pub 3]\<rparr>"

text \<open>What the validation of the example message extracts.\<close>

definition ex_validated :: ValidatedMessage where
  "ex_validated =
     \<lparr>ipfsPointer = ''10'', codeCellHash = bitString ex_codeHash,
      senderAddress = replicate 267 False, queryId = 0\<rparr>"

text \<open>The request of the suite's "Adds source".\<close>

definition ex_request :: SourceVerifyPayload where
  "ex_request =
     \<lparr>p_sources = [], p_compiler = Func,
      p_compilerSettings = \<lparr>commandLine = Some [], otherSettings = [(''funcVersion'', ''0.4.0'')]\<rparr>,
      p_knownContractAddress = ''N/A'', p_knownContractHash = ''SomeHASH'',
      p_tmpDir = ''N/A'', p_senderAddress = ''sender''\<rparr>"

text \<open>
  The controller of verifier \<open>n\<close>: the compiler answers \<open>cr\<close>, the chain reader answers
  \<open>deployed\<close> and a quorum of \<open>q\<close>, and the storage holds the document \<open>doc\<close> under the
  pointer of the example message and the text of one source file.
\<close>

definition ex_controller :: "nat \<Rightarrow> CompileResult \<Rightarrow> bool \<Rightarrow> nat \<Rightarrow> string \<Rightarrow> Controller" where
  "ex_controller n cr deployed q doc =
     \<lparr>ipfs_write = (\<lambda>files pin. Inr (map snd files)),
      ipfs_writeFromContent = (\<lambda>contents pin. Inr contents),
      ipfs_read = (\<lambda>pointer. if pointer = ''10'' then Inr doc
                              else if pointer = ''src'' then Inr ''code''
                              else Inl (External ''not found'')),
      keypair = ex_key n,
      VERIFIER_SHA256 = ex_verifierIdHash,
      config = \<lparr>verifierId = ''some verifier'', privateKey = ''secret'',
                sourcesRegistryAddress = bitString ex_registry, allowReverification = False\<rparr>,
      compilers = (\<lambda>k p. Inr cr),
      isProofDeployed = (\<lambda>h v. Inr (Some deployed)),
      getVerifierConfig =
        (\<lambda>v r. Inr (ex_config q))\<rparr>"

text \<open>
  The imports: the JSON parser reads the document \<open>good\<close> as a func record with the
  code hash of the example message and the document \<open>tolk\<close> as the same record of the
  tolk compiler, and any other document as a record with another hash.
\<close>

definition ex_imports :: Imports where
  "ex_imports =
     \<lparr>path_join = (\<lambda>a b. a @ ''/'' @ b),
      mkdirp = (\<lambda>dir. Inr ()),
      writeFile = (\<lambda>f content. Inr ()),
      json_parse = (\<lambda>doc. if doc = ''good'' then Inr (ex_record Func (bitString ex_codeHash))
                           else if doc = ''tolk'' then Inr (ex_record Tolk (bitString ex_codeHash))
                           else Inr (ex_record Func ''other'')),
      json_stringify = (\<lambda>r. ''good''),
      toBase64 = bitString,
      address_toString = bitString,
      cell_hash = ex_hash,
      sign_detached = (\<lambda>h k. h @ k),
      getNowHourRoundedDown = 3600,
      random64BitNumber = 0,
      cellToSign = (\<lambda>sender qid h link registry vid. Inr ex_payload),
      verifierRegistryForwardMessage = (\<lambda>qid m s. Cell (uintBits 32 7 @ uintBits 64 qid) [m, s]),
      validateMessageCell = validateMessageCell_spec ex_protocol\<rparr>"

section \<open>Observations on traces and chains\<close>

fun isSignatureCell :: "event \<Rightarrow> bool" where
  "isSignatureCell (SignatureCell m) = True"
| "isSignatureCell ev = False"

fun isCompilerVerify :: "event \<Rightarrow> bool" where
  "isCompilerVerify (CompilerVerify k p) = True"
| "isCompilerVerify ev = False"

text \<open>The effects that write: uploads to the storage and files of the scratch directory.\<close>

fun isWrite :: "event \<Rightarrow> bool" where
  "isWrite (IpfsWrite files) = True"
| "isWrite (IpfsWriteFromContent contents) = True"
| "isWrite (Mkdirp d) = True"
| "isWrite (WriteFile f content) = True"
| "isWrite ev = False"

text \<open>The effects of a download: storage reads and writes to the scratch directory.\<close>

fun isDownload :: "event \<Rightarrow> bool" where
  "isDownload (IpfsRead u) = True"
| "isDownload (Mkdirp d) = True"
| "isDownload (WriteFile f content) = True"
| "isDownload ev = False"




fun isValidateMessageCell :: "event \<Rightarrow> bool" where
  "isValidateMessageCell (ValidateMessageCell m) = True"
| "isValidateMessageCell ev = False"

text \<open>The names by which the payload and the stored record select a compiler.\<close>

fun compilerName :: "Compiler \<Rightarrow> string" where
  "compilerName Func = ''func''"
| "compilerName Fift = ''fift''"
| "compilerName Tact = ''tact''"
| "compilerName Tolk = ''tolk''"

section \<open>Properties of the chain append\<close>

lemma addSignatureCell_path_to:
  "addSignatureCell (path_to bss t) n =
     (case addSignatureCell t n of Inl e \<Rightarrow> Inl e | Inr c \<Rightarrow> Inr (path_to bss c))"
  by (induction bss) (auto split: sum.splits)

text \<open>
  Every cell is a path of single-reference nodes that ends in a node with no reference
  or with at least two, so the two cases of the theorem below cover every input.
\<close>

lemma cell_is_path:
  "\<exists>bss bs rs. c = path_to bss (Cell bs rs) \<and> length rs \<noteq> 1"
proof (induction c)
  case (Cell bs rs)
  show ?case
  proof (cases rs)
    case Nil
    have "Cell bs rs = path_to [] (Cell bs rs)" by simp
    with Nil show ?thesis by (metis length_0_conv zero_neq_one)
  next
    case (Cons r rs')
    show ?thesis
    proof (cases rs')
      case Nil
      from Cell Cons obtain bss bs' rs'' where
        r: "r = path_to bss (Cell bs' rs'')" and n: "length rs'' \<noteq> 1"
        by (metis list.set_intros(1))
      have "Cell bs rs = path_to (bs # bss) (Cell bs' rs'')"
        using Cons Nil r by simp
      with n show ?thesis by blast
    next
      case (Cons r' rs'')
      have "Cell bs rs = path_to [] (Cell bs rs)" by simp
      moreover have "length rs \<noteq> 1" using \<open>rs = r # rs'\<close> Cons by simp
      ultimately show ?thesis by blast
    qed
  qed
qed

text \<open>
  C4. The append descends along the single child reference of each node to the tail (the
  node without child reference) and stores the new node there; every node on the way
  keeps its bits and its position. When a visited node has a second child reference the
  call fails with \<open>TooManyReferences\<close>.
\<close>

theorem addSignatureCell_appends_at_tail:
  "addSignatureCell (path_to bss (Cell bs [])) sigCell = Inr (path_to bss (Cell bs [sigCell]))
   \<and> addSignatureCell (path_to bss (Cell bs (r1 # r2 # rs))) sigCell = Inl TooManyReferences"
  by (simp add: addSignatureCell_path_to)

section \<open>Properties of addSource\<close>

lemma addSource_early_return:
  assumes "compilers c (p_compiler p) p = Inr cr"
    and "truthy (cr_error cr) \<or> cr_result cr \<noteq> Similar \<or> \<not> truthy (cr_hash cr)"
  shows "addSource im c p =
           ([CompilerVerify (p_compiler p) p],
            Inr \<lparr>compileResult = cr, sig = None, ipfsLink = None, msgCell = None\<rparr>)"
  using assms by (simp add: addSource_def and_then_def await_def done_with_def)

text \<open>
  C3. When the compiler answers with a result that is not "similar", \<open>addSource\<close>
  returns that result and nothing else (no signature, no storage pointer, no message),
  and the only effect of the call is the compiler invocation: nothing is written to
  storage and nothing is signed.
\<close>

theorem addSource_not_similar_inert:
  assumes "compilers c (p_compiler p) p = Inr cr"
    and "cr_result cr \<noteq> Similar"
  shows "addSource im c p =
           ([CompilerVerify (p_compiler p) p],
            Inr \<lparr>compileResult = cr, sig = None, ipfsLink = None, msgCell = None\<rparr>)"
  using assms by (simp add: addSource_early_return)

text \<open>
  C6. When reverification is not allowed and the chain reader reports the proof as
  deployed, \<open>addSource\<close> writes nothing to the storage, signs nothing and returns no
  signature, storage pointer or message, whatever the compiler answers; and when the
  compilation has passed, so that the chain reader is asked, the call returns the
  "Contract is already deployed" result, its effects being the compiler invocation and
  the chain-reader query only.
\<close>

theorem addSource_already_deployed:
  assumes "\<not> allowReverification (config c)"
    and "isProofDeployed c (p_knownContractHash p) (verifierId (config c)) = Inr (Some True)"
  shows "list_all (\<lambda>ev. \<not> isWrite ev \<and> \<not> isSignatureCell ev) (fst (addSource im c p))
       \<and> (\<forall>r. snd (addSource im c p) = Inr r \<longrightarrow> sig r = None \<and> ipfsLink r = None \<and> msgCell r = None)
       \<and> (\<forall>cr. compilers c (p_compiler p) p = Inr cr
              \<and> \<not> truthy (cr_error cr) \<and> cr_result cr = Similar \<and> truthy (cr_hash cr) \<longrightarrow>
            addSource im c p =
              ([CompilerVerify (p_compiler p) p,
                IsProofDeployed (p_knownContractHash p) (verifierId (config c))],
               Inr \<lparr>compileResult =
                      \<lparr>cr_result = UnknownError,
                       cr_error = Some ''Contract is already deployed'',
                       cr_hash = None,
                       cr_compilerSettings = cr_compilerSettings cr,
                       cr_sources = cr_sources cr\<rparr>,
                    sig = None, ipfsLink = None, msgCell = None\<rparr>))"
proof -
  have quiet: "list_all (\<lambda>ev. \<not> isWrite ev \<and> \<not> isSignatureCell ev) (fst (addSource im c p))"
    using assms
    by (auto simp: addSource_def and_then_def await_def done_with_def alreadyDeployed_def
        split: sum.splits option.splits)
  have bare: "sig r = None \<and> ipfsLink r = None \<and> msgCell r = None"
    if "snd (addSource im c p) = Inr r" for r
    using assms that
    by (auto simp: addSource_def and_then_def await_def done_with_def alreadyDeployed_def
        split: sum.splits option.splits if_splits)
  have deployed: "addSource im c p =
      ([CompilerVerify (p_compiler p) p,
        IsProofDeployed (p_knownContractHash p) (verifierId (config c))],
       Inr \<lparr>compileResult =
              \<lparr>cr_result = UnknownError,
               cr_error = Some ''Contract is already deployed'',
               cr_hash = None,
               cr_compilerSettings = cr_compilerSettings cr,
               cr_sources = cr_sources cr\<rparr>,
            sig = None, ipfsLink = None, msgCell = None\<rparr>)"
    if "compilers c (p_compiler p) p = Inr cr
      \<and> \<not> truthy (cr_error cr) \<and> cr_result cr = Similar \<and> truthy (cr_hash cr)" for cr
    using assms that
    by (auto simp: addSource_def and_then_def await_def done_with_def alreadyDeployed_def
        truthy_def split: option.splits)
  from quiet bare deployed show ?thesis by blast
qed

text \<open>
  C10 (amended). With a "similar" result, an error that is a non-empty string, or a hash
  that is missing or the empty string, also makes \<open>addSource\<close> return the compiler
  result alone, the compiler invocation being the only effect.
\<close>

theorem addSource_similar_with_error_or_no_hash_inert:
  assumes "compilers c (p_compiler p) p = Inr cr"
    and "cr_result cr = Similar"
    and "(\<exists>msg. cr_error cr = Some msg \<and> msg \<noteq> []) \<or> cr_hash cr = None \<or> cr_hash cr = Some []"
  shows "addSource im c p =
           ([CompilerVerify (p_compiler p) p],
            Inr \<lparr>compileResult = cr, sig = None, ipfsLink = None, msgCell = None\<rparr>)"
proof -
  from assms(3) have "truthy (cr_error cr) \<or> \<not> truthy (cr_hash cr)"
    by (auto simp: truthy_def)
  with assms(1) show ?thesis by (simp add: addSource_early_return)
qed

section \<open>Properties of sign\<close>

lemma downloadAll_events:
  "list_all isDownload (fst (downloadAll im c tmpDir ss))"
  by (simp add: downloadAll_def Let_def list_all_iff) auto

lemma downloads_no_signature:
  "list_all isDownload t \<Longrightarrow> list_all (\<lambda>ev. \<not> isSignatureCell ev) t"
  by (induction t) (auto elim: isDownload.elims)

lemma downloads_no_compiler:
  "list_all isDownload t \<Longrightarrow> list_all (\<lambda>ev. \<not> isCompilerVerify ev) t"
  by (induction t) (auto elim: isDownload.elims)

lemma sign_config_fails:
  assumes "getVerifierConfig c (verifierId (config c)) (sourcesRegistryAddress (config c)) = Inl e"
  shows "sign im c cell tmpDir =
           ([GetVerifierConfig (verifierId (config c)) (sourcesRegistryAddress (config c))], Inl e)"
  using assms by (simp add: sign_def and_then_def await_def)

lemma sign_validation_fails:
  assumes "getVerifierConfig c (verifierId (config c)) (sourcesRegistryAddress (config c)) = Inr vc"
    and "validateMessageCell im cell (VERIFIER_SHA256 c) (sourcesRegistryAddress (config c))
           (keypair c) vc = Inl e"
  shows "sign im c cell tmpDir =
           ([GetVerifierConfig (verifierId (config c)) (sourcesRegistryAddress (config c)),
             ValidateMessageCell cell], Inl e)"
  using assms by (simp add: sign_def and_then_def await_def)

lemma sign_hash_mismatch:
  assumes "getVerifierConfig c (verifierId (config c)) (sourcesRegistryAddress (config c)) = Inr vc"
    and "validateMessageCell im cell (VERIFIER_SHA256 c) (sourcesRegistryAddress (config c))
           (keypair c) vc = Inr v"
    and "ipfs_read c (ipfsPointer v) = Inr sourceTemp"
    and "json_parse im sourceTemp = Inr json"
    and "si_hash json \<noteq> codeCellHash v"
  shows "sign im c cell tmpDir =
           ([GetVerifierConfig (verifierId (config c)) (sourcesRegistryAddress (config c)),
             ValidateMessageCell cell, IpfsRead (ipfsPointer v)], Inl CodeHashMismatch)"
  using assms by (simp add: sign_def and_then_def await_def throw_def)

lemma sign_compiler_answers:
  assumes "getVerifierConfig c (verifierId (config c)) (sourcesRegistryAddress (config c)) = Inr vc"
    and "validateMessageCell im cell (VERIFIER_SHA256 c) (sourcesRegistryAddress (config c))
           (keypair c) vc = Inr v"
    and "ipfs_read c (ipfsPointer v) = Inr sourceTemp"
    and "json_parse im sourceTemp = Inr json"
    and "si_hash json = codeCellHash v"
    and "downloadAll im c tmpDir (si_sources json) = (t, Inr sources)"
    and "compilers c (si_compiler json) (sourceToVerify im json sources tmpDir (senderAddress v)) = Inr cr"
  shows "sign im c cell tmpDir =
           (if cr_result cr \<noteq> Similar
            then ([GetVerifierConfig (verifierId (config c)) (sourcesRegistryAddress (config c)),
                   ValidateMessageCell cell, IpfsRead (ipfsPointer v)] @ t @
                  [CompilerVerify (si_compiler json)
                     (sourceToVerify im json sources tmpDir (senderAddress v))],
                  Inl (InvalidCompilationResult (cr_result cr)))
            else ([GetVerifierConfig (verifierId (config c)) (sourcesRegistryAddress (config c)),
                   ValidateMessageCell cell, IpfsRead (ipfsPointer v)] @ t @
                  [CompilerVerify (si_compiler json)
                     (sourceToVerify im json sources tmpDir (senderAddress v))] @
                  fst (appendSignature im c cell),
                  snd (appendSignature im c cell)))"
  using assms
  by (simp add: sign_def and_then_def await_def throw_def Let_def split: prod.splits)

lemma downloads_no_validation:
  "list_all isDownload t \<Longrightarrow> list_all (\<lambda>ev. \<not> isValidateMessageCell ev) t"
  by (induction t) (auto elim: isDownload.elims)

lemma appendSignature_events:
  "list_all isSignatureCell (fst (appendSignature im c cell))"
  by (auto simp: appendSignature_def and_then_def await_def done_with_def throw_def
      split: list.splits sum.splits prod.splits)

lemma signatures_no_validation:
  "list_all isSignatureCell t \<Longrightarrow> list_all (\<lambda>ev. \<not> isValidateMessageCell ev) t"
  by (induction t) (auto elim: isSignatureCell.elims)

lemma sign_validates_once:
  assumes "getVerifierConfig c (verifierId (config c)) (sourcesRegistryAddress (config c)) = Inr vc"
  shows "\<exists>rest. fst (sign im c cell tmpDir) =
           GetVerifierConfig (verifierId (config c)) (sourcesRegistryAddress (config c)) #
           ValidateMessageCell cell # rest
         \<and> list_all (\<lambda>ev. \<not> isValidateMessageCell ev) rest"
proof -
  have d: "list_all (\<lambda>ev. \<not> isValidateMessageCell ev) t"
    if "downloadAll im c tmpDir ss = (t, r)" for ss t r
    using downloads_no_validation [OF downloadAll_events [of im c tmpDir ss]] that by simp
  have a: "list_all (\<lambda>ev. \<not> isValidateMessageCell ev) t"
    if "appendSignature im c cell = (t, r)" for t r
    using signatures_no_validation [OF appendSignature_events [of im c cell]] that by simp
  show ?thesis
    using assms
    by (auto simp: sign_def and_then_def await_def throw_def Let_def
        split: sum.splits prod.splits dest: d a)
qed

text \<open>
  C1 (amended). In \<open>sign\<close> the incoming message, signature chain included, is validated
  by \<open>validateMessageCell\<close> right after the verifier configuration has been fetched,
  before the source record is read and before anything is recompiled; it is validated
  once, and nothing that follows is a validation. A failure of the validation ends the
  call with that failure. When the validation has passed and the recompilation answers
  with a result other than "similar", the call fails with \<open>InvalidCompilationResult\<close>.
\<close>

theorem sign_validates_before_recompiling:
  assumes "getVerifierConfig c (verifierId (config c)) (sourcesRegistryAddress (config c)) = Inr vc"
  shows "(\<exists>rest. fst (sign im c cell tmpDir) =
            GetVerifierConfig (verifierId (config c)) (sourcesRegistryAddress (config c)) #
            ValidateMessageCell cell # rest
          \<and> list_all (\<lambda>ev. \<not> isValidateMessageCell ev) rest)
       \<and> (\<forall>e. validateMessageCell im cell (VERIFIER_SHA256 c) (sourcesRegistryAddress (config c))
                 (keypair c) vc = Inl e \<longrightarrow>
              sign im c cell tmpDir =
                ([GetVerifierConfig (verifierId (config c)) (sourcesRegistryAddress (config c)),
                  ValidateMessageCell cell], Inl e))
       \<and> (\<forall>v sourceTemp json t sources cr.
              validateMessageCell im cell (VERIFIER_SHA256 c) (sourcesRegistryAddress (config c))
                (keypair c) vc = Inr v
              \<and> ipfs_read c (ipfsPointer v) = Inr sourceTemp
              \<and> json_parse im sourceTemp = Inr json
              \<and> si_hash json = codeCellHash v
              \<and> downloadAll im c tmpDir (si_sources json) = (t, Inr sources)
              \<and> compilers c (si_compiler json)
                    (sourceToVerify im json sources tmpDir (senderAddress v)) = Inr cr
              \<and> cr_result cr \<noteq> Similar \<longrightarrow>
              snd (sign im c cell tmpDir) = Inl (InvalidCompilationResult (cr_result cr)))"
proof (intro conjI allI impI)
  show "\<exists>rest. fst (sign im c cell tmpDir) =
            GetVerifierConfig (verifierId (config c)) (sourcesRegistryAddress (config c)) #
            ValidateMessageCell cell # rest
          \<and> list_all (\<lambda>ev. \<not> isValidateMessageCell ev) rest"
    using assms by (rule sign_validates_once)
next
  fix e
  assume "validateMessageCell im cell (VERIFIER_SHA256 c) (sourcesRegistryAddress (config c))
            (keypair c) vc = Inl e"
  with assms show "sign im c cell tmpDir =
      ([GetVerifierConfig (verifierId (config c)) (sourcesRegistryAddress (config c)),
        ValidateMessageCell cell], Inl e)"
    by (rule sign_validation_fails)
next
  fix v sourceTemp json t sources cr
  assume h: "validateMessageCell im cell (VERIFIER_SHA256 c) (sourcesRegistryAddress (config c))
                (keypair c) vc = Inr v
              \<and> ipfs_read c (ipfsPointer v) = Inr sourceTemp
              \<and> json_parse im sourceTemp = Inr json
              \<and> si_hash json = codeCellHash v
              \<and> downloadAll im c tmpDir (si_sources json) = (t, Inr sources)
              \<and> compilers c (si_compiler json)
                    (sourceToVerify im json sources tmpDir (senderAddress v)) = Inr cr
              \<and> cr_result cr \<noteq> Similar"
  then show "snd (sign im c cell tmpDir) = Inl (InvalidCompilationResult (cr_result cr))"
    using sign_compiler_answers [OF assms, of im cell v sourceTemp json tmpDir t sources cr]
    by simp
qed

text \<open>
  C2. Once the message has been validated and the source record has been read from the
  extracted content pointer: when the hash recorded in it differs from the validated
  code hash, \<open>sign\<close> fails with \<open>CodeHashMismatch\<close>; when the hashes agree, the sources
  have been downloaded and the compiler, invoked with the stored settings, answers with
  a result other than "similar", \<open>sign\<close> fails with \<open>InvalidCompilationResult\<close>. In
  both cases nothing has been signed.
\<close>

theorem sign_rejects_hash_mismatch_and_failed_recompilation:
  assumes "getVerifierConfig c (verifierId (config c)) (sourcesRegistryAddress (config c)) = Inr vc"
    and "validateMessageCell im cell (VERIFIER_SHA256 c) (sourcesRegistryAddress (config c))
           (keypair c) vc = Inr v"
    and "ipfs_read c (ipfsPointer v) = Inr sourceTemp"
    and "json_parse im sourceTemp = Inr json"
  shows "(si_hash json \<noteq> codeCellHash v \<longrightarrow>
            snd (sign im c cell tmpDir) = Inl CodeHashMismatch
            \<and> list_all (\<lambda>ev. \<not> isSignatureCell ev) (fst (sign im c cell tmpDir))
            \<and> list_all (\<lambda>ev. \<not> isCompilerVerify ev) (fst (sign im c cell tmpDir)))
       \<and> (\<forall>t sources cr.
            si_hash json = codeCellHash v
            \<and> downloadAll im c tmpDir (si_sources json) = (t, Inr sources)
            \<and> compilers c (si_compiler json)
                 (sourceToVerify im json sources tmpDir (senderAddress v)) = Inr cr
            \<and> cr_result cr \<noteq> Similar \<longrightarrow>
            snd (sign im c cell tmpDir) = Inl (InvalidCompilationResult (cr_result cr))
            \<and> list_all (\<lambda>ev. \<not> isSignatureCell ev) (fst (sign im c cell tmpDir)))"
proof (intro conjI allI impI)
  assume ne: "si_hash json \<noteq> codeCellHash v"
  note eq = sign_hash_mismatch [OF assms ne, of tmpDir]
  show "snd (sign im c cell tmpDir) = Inl CodeHashMismatch" by (simp add: eq)
  show "list_all (\<lambda>ev. \<not> isSignatureCell ev) (fst (sign im c cell tmpDir))" by (simp add: eq)
  show "list_all (\<lambda>ev. \<not> isCompilerVerify ev) (fst (sign im c cell tmpDir))" by (simp add: eq)
next
  fix t sources cr
  assume h: "si_hash json = codeCellHash v
            \<and> downloadAll im c tmpDir (si_sources json) = (t, Inr sources)
            \<and> compilers c (si_compiler json)
                 (sourceToVerify im json sources tmpDir (senderAddress v)) = Inr cr
            \<and> cr_result cr \<noteq> Similar"
  then have d: "downloadAll im c tmpDir (si_sources json) = (t, Inr sources)" by simp
  have "list_all isDownload t"
    using downloadAll_events [of im c tmpDir "si_sources json"] d by simp
  then have ns: "list_all (\<lambda>ev. \<not> isSignatureCell ev) t" by (rule downloads_no_signature)
  have eq: "sign im c cell tmpDir =
      ([GetVerifierConfig (verifierId (config c)) (sourcesRegistryAddress (config c)),
        ValidateMessageCell cell, IpfsRead (ipfsPointer v)] @ t @
       [CompilerVerify (si_compiler json) (sourceToVerify im json sources tmpDir (senderAddress v))],
       Inl (InvalidCompilationResult (cr_result cr)))"
    using sign_compiler_answers [OF assms, of tmpDir t sources cr] h by simp
  show "snd (sign im c cell tmpDir) = Inl (InvalidCompilationResult (cr_result cr))"
    by (simp add: eq)
  show "list_all (\<lambda>ev. \<not> isSignatureCell ev) (fst (sign im c cell tmpDir))"
    using ns by (simp add: eq)
qed

lemma signatures_no_compiler:
  "list_all isSignatureCell t \<Longrightarrow> list_all (\<lambda>ev. \<not> isCompilerVerify ev) t"
  by (induction t) (auto elim: isSignatureCell.elims)

lemma replaceFunc_prefix: "replaceFunc (''func'' @ cmd) = cmd"
  by (simp add: replaceFunc_def)

lemma replaceFunc_other: "take 4 cmd \<noteq> ''func'' \<Longrightarrow> replaceFunc cmd = cmd"
  by (simp add: replaceFunc_def)

text \<open>
  C9 (amended). When \<open>sign\<close> reaches the recompilation, the compiler named by the stored
  record is called exactly once, after the downloads, with the stored settings in which
  the command line has lost a leading \<open>func\<close>: a stored command line whose first four
  characters are \<open>func\<close> is replayed without them, whether or not they are a whole word
  and whichever compiler the record names; every other command line (one that begins
  with the name of another compiler in particular) and every other setting is replayed
  as stored.
\<close>

theorem sign_replays_command_line_without_func:
  assumes "getVerifierConfig c (verifierId (config c)) (sourcesRegistryAddress (config c)) = Inr vc"
    and "validateMessageCell im cell (VERIFIER_SHA256 c) (sourcesRegistryAddress (config c))
           (keypair c) vc = Inr v"
    and "ipfs_read c (ipfsPointer v) = Inr sourceTemp"
    and "json_parse im sourceTemp = Inr json"
    and "si_hash json = codeCellHash v"
    and "downloadAll im c tmpDir (si_sources json) = (t, Inr sources)"
  shows "\<exists>payload rest.
           fst (sign im c cell tmpDir) =
             [GetVerifierConfig (verifierId (config c)) (sourcesRegistryAddress (config c)),
              ValidateMessageCell cell, IpfsRead (ipfsPointer v)] @ t @
             CompilerVerify (si_compiler json) payload # rest
           \<and> list_all (\<lambda>ev. \<not> isCompilerVerify ev) (t @ rest)
           \<and> p_compiler payload = si_compiler json
           \<and> otherSettings (p_compilerSettings payload) =
               (case si_compilerSettings json of None \<Rightarrow> [] | Some cs \<Rightarrow> otherSettings cs)
           \<and> commandLine (p_compilerSettings payload) =
               (case si_compilerSettings json of
                  None \<Rightarrow> None
                | Some cs \<Rightarrow>
                    (case commandLine cs of
                       None \<Rightarrow> None
                     | Some cmd \<Rightarrow>
                         Some (if take 4 cmd = compilerName Func then drop 4 cmd else cmd)))
           \<and> (\<forall>k cmd. k \<noteq> Func \<longrightarrow> replaceFunc (compilerName k @ cmd) = compilerName k @ cmd)"
proof -
  let ?payload = "sourceToVerify im json sources tmpDir (senderAddress v)"
  let ?pre = "[GetVerifierConfig (verifierId (config c)) (sourcesRegistryAddress (config c)),
              ValidateMessageCell cell, IpfsRead (ipfsPointer v)]"
  have "list_all isDownload t"
    using downloadAll_events [of im c tmpDir "si_sources json"] assms(6) by simp
  then have nt: "list_all (\<lambda>ev. \<not> isCompilerVerify ev) t" by (rule downloads_no_compiler)
  have na: "list_all (\<lambda>ev. \<not> isCompilerVerify ev) (fst (appendSignature im c cell))"
    by (rule signatures_no_compiler) (rule appendSignature_events)
  have "\<exists>rest. fst (sign im c cell tmpDir) = ?pre @ t @ CompilerVerify (si_compiler json) ?payload # rest
          \<and> list_all (\<lambda>ev. \<not> isCompilerVerify ev) rest"
    using assms na
    by (auto simp: sign_def and_then_def await_def throw_def Let_def split: sum.splits prod.splits)
  then obtain rest where
    tr: "fst (sign im c cell tmpDir) = ?pre @ t @ CompilerVerify (si_compiler json) ?payload # rest"
    and nr: "list_all (\<lambda>ev. \<not> isCompilerVerify ev) rest"
    by blast
  have cmd: "commandLine (p_compilerSettings ?payload) =
               (case si_compilerSettings json of
                  None \<Rightarrow> None
                | Some cs \<Rightarrow>
                    (case commandLine cs of
                       None \<Rightarrow> None
                     | Some cmd \<Rightarrow>
                         Some (if take 4 cmd = compilerName Func then drop 4 cmd else cmd)))"
    by (simp add: sourceToVerify_def replaySettings_def replaceFunc_def
        split: option.splits)
  have oth: "otherSettings (p_compilerSettings ?payload) =
               (case si_compilerSettings json of None \<Rightarrow> [] | Some cs \<Rightarrow> otherSettings cs)"
    by (simp add: sourceToVerify_def replaySettings_def)
  have comp: "p_compiler ?payload = si_compiler json"
    by (simp add: sourceToVerify_def)
  have names: "\<forall>k cmd. k \<noteq> Func \<longrightarrow> replaceFunc (compilerName k @ cmd) = compilerName k @ cmd"
  proof (intro allI impI)
    fix k :: Compiler and cmd :: string
    assume "k \<noteq> Func"
    then show "replaceFunc (compilerName k @ cmd) = compilerName k @ cmd"
      by (cases k) (simp_all add: replaceFunc_def)
  qed
  from tr nt nr cmd oth comp names show ?thesis by auto
qed



section \<open>Properties of the message validation\<close>




text \<open>
  C7. With a quorum of at most one the Multisig Validator fails with \<open>QuorumTooSmall\<close>
  whatever the signature chain, the message hash and the signature scheme are: no node
  of the chain takes part in the outcome. The same holds for the validation \<open>sign\<close>
  relies on, for every message whose envelope is valid and every running verifier.
\<close>

theorem quorum_too_small_before_signatures:
  assumes "quorum cfg \<le> 1"
  shows "validateSignatures pr cfg messageHash head = Inl QuorumTooSmall
       \<and> (\<forall>cell verifierIdHash registry kp v.
            validateEnvelope pr cell verifierIdHash registry = Inr v \<longrightarrow>
            validateMessageCell_spec pr cell verifierIdHash registry kp cfg = Inl QuorumTooSmall)"
  using assms by (simp add: validateSignatures_def validateMessageCell_spec_def)


section \<open>The concrete setting at work\<close>

lemma length_uintBits [simp]: "length (uintBits w v) = w"
  by (induction w arbitrary: v) auto

lemma toNat_snoc: "toNat (bs @ [b]) = 2 * toNat bs + (if b then 1 else 0)"
  by (simp add: toNat_def)

lemma toNat_uintBits: "toNat (uintBits w v) = v mod 2 ^ w"
proof (induction w arbitrary: v)
  case 0
  show ?case by (simp add: toNat_def)
next
  case (Suc w)
  have "v mod (2 * 2 ^ w) = 2 * (v div 2 mod 2 ^ w) + v mod 2"
    by (simp add: mod_mult2_eq)
  moreover have "(if odd v then 1 else 0) = v mod 2"
    by (simp add: odd_iff_mod_2_eq_one)
  ultimately show ?case using Suc by (simp add: toNat_snoc)
qed

lemma uintBits_neq: "a mod 2 ^ w \<noteq> b mod 2 ^ w \<Longrightarrow> uintBits w a \<noteq> uintBits w b"
  by (metis toNat_uintBits)

lemma ex_pub_neq: "a mod 2 ^ 256 \<noteq> b mod 2 ^ 256 \<Longrightarrow> ex_pub a \<noteq> ex_pub b"
  by (simp add: ex_pub_def uintBits_neq)


lemma ex_lengths [simp]:
  "length ex_verifierIdHash = 256" "length ex_registry = 267"
  "length (ex_pub n) = 256" "length ex_codeHash = 256"
  by (simp_all add: ex_verifierIdHash_def ex_registry_def ex_pub_def ex_codeHash_def)

lemma ex_hash_payload [simp]: "ex_hash ex_payload = ex_verifierIdHash"
  by (simp add: ex_hash_def ex_payload_def)

lemma ex_decode_payload:
  "decodeSignedPayload ex_protocol ex_payload =
     Some \<lparr>sp_verifierIdHash = ex_verifierIdHash, sp_expiresAt = 2000,
           sp_senderAddress = replicate 267 False, sp_sourcesRegistryAddress = ex_registry,
           sp_deploySource = ex_deploySource\<rparr>"
  by (simp add: decodeSignedPayload_def ex_protocol_def ex_payload_def toNat_uintBits)

lemma ex_decode_deploy:
  "decodeDeploySource ex_deploySource =
     Some \<lparr>ds_opCode = 9, ds_queryId = 0, ds_verifierIdHash = ex_verifierIdHash,
           ds_codeHash = ex_codeHash, ds_contentPointer = Cell (uintBits 8 1 @ [True, False]) []\<rparr>"
  by (simp add: decodeDeploySource_def ex_deploySource_def toNat_uintBits)

lemma ex_envelope:
  "validateEnvelope ex_protocol (ex_message (ex_payload # chain # rest)) ex_verifierIdHash
     (bitString ex_registry) = Inr ex_validated"
  by (simp add: validateEnvelope_def ex_message_def ex_decode_payload ex_decode_deploy
      toNat_uintBits ex_validated_def bitString_def)
    (simp add: ex_protocol_def bitString_def)


lemma ex_hash_neq: "ex_codeHash \<noteq> ex_verifierIdHash"
  by (simp add: ex_codeHash_def ex_verifierIdHash_def uintBits_neq)

lemma ex_validator: "validateMessageCell ex_imports = validateMessageCell_spec ex_protocol"
  by (simp add: ex_imports_def)

lemma ex_getVerifierConfig:
  "getVerifierConfig (ex_controller n cr d q doc) a b = Inr (ex_config q)"
  by (simp add: ex_controller_def)

lemma ex_controller_fields:
  "VERIFIER_SHA256 (ex_controller n cr d q doc) = ex_verifierIdHash"
  "sourcesRegistryAddress (config (ex_controller n cr d q doc)) = bitString ex_registry"
  "verifierId (config (ex_controller n cr d q doc)) = ''some verifier''"
  "allowReverification (config (ex_controller n cr d q doc)) = False"
  "keypair (ex_controller n cr d q doc) = ex_key n"
  "compilers (ex_controller n cr d q doc) k p = Inr cr"
  "isProofDeployed (ex_controller n cr d q doc) h v = Inr (Some d)"
  "ipfs_read (ex_controller n cr d q doc) ''10'' = Inr doc"
  "ipfs_read (ex_controller n cr d q doc) ''src'' = Inr ''code''"
  by (simp_all add: ex_controller_def)

lemma ex_message_sel [simp]:
  "refs (ex_message rs) = rs" "bits (ex_message rs) = uintBits 32 7 @ uintBits 64 0"
  by (simp_all add: ex_message_def)

lemma ex_config_sel [simp]:
  "quorum (ex_config q) = q" "verifiers (ex_config q) = [ex_pub 1, ex_pub 2, ex_pub 3]"
  by (simp_all add: ex_config_def)

lemma ex_key_sel [simp]:
  "publicKey (ex_key n) = ex_pub n" "secretKey (ex_key n) = ex_pub n"
  by (simp_all add: ex_key_def)

lemma ex_protocol_sel:
  "verify_detached ex_protocol h sg k = (sg = h @ k)"
  "hashOf ex_protocol = ex_hash"
  by (simp_all add: ex_protocol_def)

text \<open>The validation of an example message comes down to the walk over its chain.\<close>

lemma ex_validateMessageCell:
  "validateMessageCell_spec ex_protocol (ex_message (ex_payload # chain # rest))
     ex_verifierIdHash (bitString ex_registry) kp cfg =
   (case validateSignatures ex_protocol cfg ex_verifierIdHash chain of
      Inl e \<Rightarrow> Inl e
    | Inr keys \<Rightarrow>
        if quorum cfg < Suc (length keys) then Inl TooManySignatures
        else if publicKey kp \<in> set keys then Inl AlreadySignedBySelf
        else if publicKey kp \<notin> set (verifiers cfg) then Inl NotInMultisigConfig
        else Inr ex_validated)"
proof -
  have "hashOf ex_protocol ex_payload = ex_verifierIdHash"
    by (simp add: ex_protocol_sel)
  then show ?thesis
    by (simp add: validateMessageCell_spec_def ex_envelope)
qed

lemma ex_walk:
  "walkSignatures ex_protocol cfg ex_verifierIdHash seen count (ex_sigCell n rs) =
     (if 1 < length rs then Inl InvalidSignatureCell
      else if ex_pub n \<notin> set (verifiers cfg) then Inl NotInMultisigConfig
      else if ex_pub n \<in> set seen then Inl DuplicateSignature
      else if quorum cfg < Suc count then Inl TooManySignatures
      else (case rs of
              [] \<Rightarrow> Inr (seen @ [ex_pub n])
            | next # other \<Rightarrow>
                walkSignatures ex_protocol cfg ex_verifierIdHash (seen @ [ex_pub n]) (Suc count) next))"
  by (simp add: ex_sigCell_def ex_protocol_sel split: list.split)

lemma ex_walk_forged:
  "walkSignatures ex_protocol cfg ex_verifierIdHash seen count (ex_forgedCell n) = Inl InvalidSignature"
  by (simp add: ex_forgedCell_def ex_protocol_sel ex_hash_neq)

lemma ex_valid_one:
  "validateMessageCell_spec ex_protocol (ex_message (ex_payload # ex_sigCell 1 [] # rest))
     ex_verifierIdHash (bitString ex_registry) (ex_key 2) (ex_config 3) = Inr ex_validated"
  by (simp add: ex_validateMessageCell validateSignatures_def ex_walk ex_pub_neq)

lemma ex_valid_forged:
  "validateMessageCell_spec ex_protocol (ex_message [ex_payload, ex_forgedCell 1])
     ex_verifierIdHash (bitString ex_registry) (ex_key 2) (ex_config 3) = Inl InvalidSignature"
  by (simp add: ex_validateMessageCell validateSignatures_def ex_walk_forged)

lemma ex_downloadAll:
  "downloadAll ex_imports (ex_controller n cr d q doc) ''tmp''
     [\<lparr>url = ''src'', compiled = Some \<lparr>filename = ''main.fc'', flags = []\<rparr>\<rparr>] =
   ([IpfsRead ''src'', Mkdirp ''tmp'', WriteFile ''tmp/main.fc'' ''code''],
    Inr [\<lparr>path = ''main.fc'',
          stored = Some \<lparr>url = ''src'', compiled = Some \<lparr>filename = ''main.fc'', flags = []\<rparr>\<rparr>\<rparr>])"
  by (simp add: downloadAll_def startDownload_def dirOf_def ex_controller_fields ex_imports_def)


lemma ex_imports_fields:
  "json_parse ex_imports ''good'' = Inr (ex_record Func (bitString ex_codeHash))"
  "json_parse ex_imports ''tolk'' = Inr (ex_record Tolk (bitString ex_codeHash))"
  "json_parse ex_imports ''bad'' = Inr (ex_record Func ''other'')"
  "cell_hash ex_imports = ex_hash"
  "sign_detached ex_imports h k = h @ k"
  "address_toString ex_imports = bitString"
  by (simp_all add: ex_imports_def)

lemma ex_record_sel:
  "si_hash (ex_record k h) = h" "si_compiler (ex_record k h) = k"
  "si_sources (ex_record k h) =
     [\<lparr>url = ''src'', compiled = Some \<lparr>filename = ''main.fc'', flags = []\<rparr>\<rparr>]"
  "si_compilerSettings (ex_record k h) =
     Some \<lparr>commandLine = Some ''func -SPA main.fc'', otherSettings = [(''funcVersion'', ''0.4.0'')]\<rparr>"
  by (simp_all add: ex_record_def)

lemma ex_validated_sel:
  "ipfsPointer ex_validated = ''10''" "codeCellHash ex_validated = bitString ex_codeHash"
  "senderAddress ex_validated = replicate 267 False"
  by (simp_all add: ex_validated_def)

lemma ex_other_hash: "''other'' \<noteq> bitString ex_codeHash"
proof
  assume "''other'' = bitString ex_codeHash"
  then have "length ''other'' = length (bitString ex_codeHash)" by simp
  then show False by (simp add: bitString_def)
qed

lemma ex_signatureCell:
  "signatureCell ex_imports ex_payload (ex_key n) =
     \<lparr>sc_sig = ex_verifierIdHash @ ex_pub n, sc_sigCell = ex_sigCell n []\<rparr>"
  by (simp add: signatureCell_def ex_imports_fields ex_sigCell_def)

lemma ex_appendSignature:
  "appendSignature ex_imports (ex_controller n cr d q doc) (ex_message (ex_payload # chain # rest)) =
     ([SignatureCell ex_payload],
      case addSignatureCell chain (ex_sigCell n []) of
        Inl e \<Rightarrow> Inl e
      | Inr u \<Rightarrow> Inr (ex_message (rest @ [ex_payload, u])))"
  by (simp add: appendSignature_def and_then_def await_def throw_def done_with_def
      ex_controller_fields ex_signatureCell ex_message_def split: sum.splits)



lemma ex_cfg:
  "getVerifierConfig (ex_controller n cr d q doc)
     (verifierId (config (ex_controller n cr d q doc)))
     (sourcesRegistryAddress (config (ex_controller n cr d q doc))) = Inr (ex_config q)"
  by (rule ex_getVerifierConfig)

lemma ex_val:
  "validateMessageCell ex_imports cell
     (VERIFIER_SHA256 (ex_controller n cr d q doc))
     (sourcesRegistryAddress (config (ex_controller n cr d q doc)))
     (keypair (ex_controller n cr d q doc)) cfg =
   validateMessageCell_spec ex_protocol cell ex_verifierIdHash (bitString ex_registry) (ex_key n) cfg"
  by (simp add: ex_validator ex_controller_fields)

lemma ex_read:
  "ipfs_read (ex_controller n cr d q doc) (ipfsPointer ex_validated) = Inr doc"
  by (simp add: ex_validated_sel ex_controller_fields)

lemma ex_downloads:
  "downloadAll ex_imports (ex_controller n cr d q doc) ''tmp'' (si_sources (ex_record k h)) =
   ([IpfsRead ''src'', Mkdirp ''tmp'', WriteFile ''tmp/main.fc'' ''code''],
    Inr [\<lparr>path = ''main.fc'',
          stored = Some \<lparr>url = ''src'', compiled = Some \<lparr>filename = ''main.fc'', flags = []\<rparr>\<rparr>\<rparr>])"
  by (simp only: ex_record_sel ex_downloadAll)

text \<open>
  Verifier B is asked to co-sign the example message signed by A. When the storage holds a
  record of another hash the call fails with \<open>CodeHashMismatch\<close>; when it holds the
  matching record and the compiler answers "not similar" it fails with
  \<open>InvalidCompilationResult\<close>. Nothing is signed in either run.
\<close>

theorem sign_rejects_hash_mismatch_and_failed_recompilation_witness:
  "snd (sign ex_imports (ex_controller 2 (ex_compileResult Similar None (Some ''h'')) False 3 ''bad'')
          (ex_message [ex_payload, ex_sigCell 1 []]) ''tmp'') = Inl CodeHashMismatch
   \<and> list_all (\<lambda>ev. \<not> isSignatureCell ev)
        (fst (sign ex_imports (ex_controller 2 (ex_compileResult Similar None (Some ''h'')) False 3 ''bad'')
               (ex_message [ex_payload, ex_sigCell 1 []]) ''tmp''))
   \<and> snd (sign ex_imports (ex_controller 2 (ex_compileResult NotSimilar None (Some ''h'')) False 3 ''good'')
          (ex_message [ex_payload, ex_sigCell 1 []]) ''tmp'') = Inl (InvalidCompilationResult NotSimilar)
   \<and> list_all (\<lambda>ev. \<not> isSignatureCell ev)
        (fst (sign ex_imports (ex_controller 2 (ex_compileResult NotSimilar None (Some ''h'')) False 3 ''good'')
               (ex_message [ex_payload, ex_sigCell 1 []]) ''tmp''))"
proof -
  let ?m = "ex_message [ex_payload, ex_sigCell 1 []]"
  let ?c1 = "ex_controller 2 (ex_compileResult Similar None (Some ''h'')) False 3 ''bad''"
  let ?c2 = "ex_controller 2 (ex_compileResult NotSimilar None (Some ''h'')) False 3 ''good''"
  have v1: "validateMessageCell ex_imports ?m (VERIFIER_SHA256 ?c1)
      (sourcesRegistryAddress (config ?c1)) (keypair ?c1) (ex_config 3) = Inr ex_validated"
    by (simp only: ex_val ex_valid_one)
  have v2: "validateMessageCell ex_imports ?m (VERIFIER_SHA256 ?c2)
      (sourcesRegistryAddress (config ?c2)) (keypair ?c2) (ex_config 3) = Inr ex_validated"
    by (simp only: ex_val ex_valid_one)
  note t1 = sign_rejects_hash_mismatch_and_failed_recompilation
      [OF ex_cfg v1 ex_read ex_imports_fields(3), of "''tmp''"]
  note t2 = sign_rejects_hash_mismatch_and_failed_recompilation
      [OF ex_cfg v2 ex_read ex_imports_fields(1), of "''tmp''"]
  have ne: "si_hash (ex_record Func ''other'') \<noteq> codeCellHash ex_validated"
    by (simp add: ex_record_sel ex_validated_sel ex_other_hash)
  have eq: "si_hash (ex_record Func (bitString ex_codeHash)) = codeCellHash ex_validated"
    by (simp add: ex_record_sel ex_validated_sel)
  have cmp: "compilers ?c2 k p = Inr (ex_compileResult NotSimilar None (Some ''h''))" for k p
    by (simp add: ex_controller_fields)
  have ns: "cr_result (ex_compileResult NotSimilar None (Some ''h'')) \<noteq> Similar"
    by (simp add: ex_compileResult_def)
  from t1 ne have a: "snd (sign ex_imports ?c1 ?m ''tmp'') = Inl CodeHashMismatch
      \<and> list_all (\<lambda>ev. \<not> isSignatureCell ev) (fst (sign ex_imports ?c1 ?m ''tmp''))"
    by blast
  from t2 eq ex_downloads cmp ns
  have b: "snd (sign ex_imports ?c2 ?m ''tmp'') = Inl (InvalidCompilationResult NotSimilar)
      \<and> list_all (\<lambda>ev. \<not> isSignatureCell ev) (fst (sign ex_imports ?c2 ?m ''tmp''))"
    by (metis ex_compileResult_def CompileResult.select_convs(1))
  from a b show ?thesis by blast
qed

text \<open>
  The request of the suite, with a compiler that answers "not similar".
\<close>

theorem addSource_not_similar_inert_witness:
  "addSource ex_imports (ex_controller 1 (ex_compileResult NotSimilar None (Some ''h'')) False 3 ''good'')
     ex_request =
   ([CompilerVerify Func ex_request],
    Inr \<lparr>compileResult = ex_compileResult NotSimilar None (Some ''h''),
         sig = None, ipfsLink = None, msgCell = None\<rparr>)"
proof -
  let ?c = "ex_controller 1 (ex_compileResult NotSimilar None (Some ''h'')) False 3 ''good''"
  have k: "p_compiler ex_request = Func" by (simp add: ex_request_def)
  have h1: "compilers ?c (p_compiler ex_request) ex_request = Inr (ex_compileResult NotSimilar None (Some ''h''))"
    by (simp add: ex_controller_fields)
  have h2: "cr_result (ex_compileResult NotSimilar None (Some ''h'')) \<noteq> Similar"
    by (simp add: ex_compileResult_def)
  show ?thesis
    using addSource_not_similar_inert [OF h1 h2, of ex_imports] by (simp add: k)
qed

text \<open>
  The request of the suite, compiled successfully, with a chain reader that reports the
  proof as deployed.
\<close>

theorem addSource_already_deployed_witness:
  "addSource ex_imports (ex_controller 1 (ex_compileResult Similar None (Some ''h'')) True 3 ''good'')
     ex_request =
   ([CompilerVerify Func ex_request, IsProofDeployed ''SomeHASH'' ''some verifier''],
    Inr \<lparr>compileResult =
           \<lparr>cr_result = UnknownError,
            cr_error = Some ''Contract is already deployed'',
            cr_hash = None,
            cr_compilerSettings =
              \<lparr>commandLine = Some ''func -SPA main.fc'', otherSettings = [(''funcVersion'', ''0.4.0'')]\<rparr>,
            cr_sources = [\<lparr>filename = ''main.fc'', flags = []\<rparr>]\<rparr>,
         sig = None, ipfsLink = None, msgCell = None\<rparr>)
   \<and> list_all (\<lambda>ev. \<not> isWrite ev \<and> \<not> isSignatureCell ev)
        (fst (addSource ex_imports
                (ex_controller 1 (ex_compileResult Similar None (Some ''h'')) True 3 ''good'') ex_request))"
proof -
  let ?cr = "ex_compileResult Similar None (Some ''h'')"
  let ?c = "ex_controller 1 ?cr True 3 ''good''"
  have k: "p_compiler ex_request = Func" "p_knownContractHash ex_request = ''SomeHASH''"
    by (simp_all add: ex_request_def)
  have h1: "compilers ?c (p_compiler ex_request) ex_request = Inr ?cr"
    by (simp add: ex_controller_fields)
  have h2: "\<not> truthy (cr_error ?cr)" by (simp add: ex_compileResult_def truthy_def)
  have h3: "cr_result ?cr = Similar" by (simp add: ex_compileResult_def)
  have h4: "truthy (cr_hash ?cr)" by (simp add: ex_compileResult_def truthy_def)
  have h5: "\<not> allowReverification (config ?c)" by (simp add: ex_controller_fields)
  have h6: "isProofDeployed ?c (p_knownContractHash ex_request) (verifierId (config ?c)) = Inr (Some True)"
    by (simp add: ex_controller_fields)
  note t = addSource_already_deployed [OF h5 h6, of ex_imports]
  from t have a: "list_all (\<lambda>ev. \<not> isWrite ev \<and> \<not> isSignatureCell ev)
      (fst (addSource ex_imports ?c ex_request))"
    by blast
  from t h1 h2 h3 h4 have "addSource ex_imports ?c ex_request =
      ([CompilerVerify (p_compiler ex_request) ex_request,
        IsProofDeployed (p_knownContractHash ex_request) (verifierId (config ?c))],
       Inr \<lparr>compileResult =
              \<lparr>cr_result = UnknownError,
               cr_error = Some ''Contract is already deployed'',
               cr_hash = None,
               cr_compilerSettings = cr_compilerSettings ?cr,
               cr_sources = cr_sources ?cr\<rparr>,
            sig = None, ipfsLink = None, msgCell = None\<rparr>)"
    by blast
  then have b: "addSource ex_imports ?c ex_request =
   ([CompilerVerify Func ex_request, IsProofDeployed ''SomeHASH'' ''some verifier''],
    Inr \<lparr>compileResult =
           \<lparr>cr_result = UnknownError,
            cr_error = Some ''Contract is already deployed'',
            cr_hash = None,
            cr_compilerSettings =
              \<lparr>commandLine = Some ''func -SPA main.fc'', otherSettings = [(''funcVersion'', ''0.4.0'')]\<rparr>,
            cr_sources = [\<lparr>filename = ''main.fc'', flags = []\<rparr>]\<rparr>,
         sig = None, ipfsLink = None, msgCell = None\<rparr>)"
    by (simp add: k ex_controller_fields ex_compileResult_def)
  from b a show ?thesis by (intro conjI)
qed

text \<open>
  A "similar" result that carries an error message, and one that carries no hash.
\<close>

theorem addSource_similar_with_error_or_no_hash_inert_witness:
  "addSource ex_imports (ex_controller 1 (ex_compileResult Similar (Some ''boom'') (Some ''h'')) False 3 ''good'')
     ex_request =
   ([CompilerVerify Func ex_request],
    Inr \<lparr>compileResult = ex_compileResult Similar (Some ''boom'') (Some ''h''),
         sig = None, ipfsLink = None, msgCell = None\<rparr>)
   \<and> addSource ex_imports (ex_controller 1 (ex_compileResult Similar None None) False 3 ''good'')
     ex_request =
   ([CompilerVerify Func ex_request],
    Inr \<lparr>compileResult = ex_compileResult Similar None None,
         sig = None, ipfsLink = None, msgCell = None\<rparr>)"
proof -
  let ?cr1 = "ex_compileResult Similar (Some ''boom'') (Some ''h'')"
  let ?cr2 = "ex_compileResult Similar None None"
  let ?c1 = "ex_controller 1 ?cr1 False 3 ''good''"
  let ?c2 = "ex_controller 1 ?cr2 False 3 ''good''"
  have k: "p_compiler ex_request = Func" by (simp add: ex_request_def)
  have a1: "compilers ?c1 (p_compiler ex_request) ex_request = Inr ?cr1"
    by (simp add: ex_controller_fields)
  have a2: "compilers ?c2 (p_compiler ex_request) ex_request = Inr ?cr2"
    by (simp add: ex_controller_fields)
  have b1: "cr_result ?cr1 = Similar" and b2: "cr_result ?cr2 = Similar"
    by (simp_all add: ex_compileResult_def)
  have c1: "(\<exists>msg. cr_error ?cr1 = Some msg \<and> msg \<noteq> []) \<or> cr_hash ?cr1 = None \<or> cr_hash ?cr1 = Some []"
    by (simp add: ex_compileResult_def)
  have c2: "(\<exists>msg. cr_error ?cr2 = Some msg \<and> msg \<noteq> []) \<or> cr_hash ?cr2 = None \<or> cr_hash ?cr2 = Some []"
    by (simp add: ex_compileResult_def)
  show ?thesis
    using addSource_similar_with_error_or_no_hash_inert [OF a1 b1 c1, of ex_imports]
      addSource_similar_with_error_or_no_hash_inert [OF a2 b2 c2, of ex_imports]
    by (simp add: k)
qed

lemma ex_imports_publish:
  "path_join ex_imports a b = a @ ''/'' @ b"
  "json_stringify ex_imports r = ''good''"
  "toBase64 ex_imports = bitString"
  "random64BitNumber ex_imports = 0"
  "cellToSign ex_imports sender qid h link registry vid = Inr ex_payload"
  "verifierRegistryForwardMessage ex_imports qid m s = Cell (uintBits 32 7 @ uintBits 64 qid) [m, s]"
  by (simp_all add: ex_imports_def)

text \<open>
  A "similar" result whose error is the empty string (not null) and whose hash is present
  passes the early return: the sources and the record are uploaded and the payload is signed.
\<close>

theorem addSource_empty_error_publishes:
  "cr_error (ex_compileResult Similar (Some []) (Some ''h'')) \<noteq> None
   \<and> cr_result (ex_compileResult Similar (Some []) (Some ''h'')) = Similar
   \<and> addSource ex_imports (ex_controller 1 (ex_compileResult Similar (Some []) (Some ''h'')) False 3 ''good'')
       ex_request =
     ([CompilerVerify Func ex_request, IsProofDeployed ''SomeHASH'' ''some verifier'',
       IpfsWrite [(''N/A/main.fc'', ''main.fc'')], IpfsWriteFromContent [''good''],
       SignatureCell ex_payload],
      Inr \<lparr>compileResult = ex_compileResult Similar (Some []) (Some ''h''),
           sig = Some (bitString (ex_verifierIdHash @ ex_pub 1)),
           ipfsLink = Some ''good'',
           msgCell = Some (ex_message [ex_payload, ex_sigCell 1 []])\<rparr>)"
proof -
  let ?cr = "ex_compileResult Similar (Some []) (Some ''h'')"
  let ?c = "ex_controller 1 ?cr False 3 ''good''"
  have pub: "publish ex_imports ?c ex_request ?cr ''h'' =
     ([IpfsWrite [(''N/A/main.fc'', ''main.fc'')], IpfsWriteFromContent [''good''],
       SignatureCell ex_payload],
      Inr \<lparr>compileResult = ?cr,
           sig = Some (bitString (ex_verifierIdHash @ ex_pub 1)),
           ipfsLink = Some ''good'',
           msgCell = Some (ex_message [ex_payload, ex_sigCell 1 []])\<rparr>)"
    by (simp add: publish_def and_then_def await_def done_with_def Let_def ex_controller_fields
        ex_imports_publish ex_signatureCell ex_message_def)
      (simp add: ex_controller_def ex_compileResult_def ex_request_def)
  have g: "cr_error ?cr = Some []" "cr_result ?cr = Similar" "cr_hash ?cr = Some ''h''"
    by (simp_all add: ex_compileResult_def)
  have k: "p_compiler ex_request = Func" "p_knownContractHash ex_request = ''SomeHASH''"
    by (simp_all add: ex_request_def)
  have run: "addSource ex_imports ?c ex_request =
      ([CompilerVerify Func ex_request, IsProofDeployed ''SomeHASH'' ''some verifier''] @
       fst (publish ex_imports ?c ex_request ?cr ''h''),
       snd (publish ex_imports ?c ex_request ?cr ''h''))"
    by (simp add: addSource_def and_then_def await_def done_with_def ex_controller_fields
        g k truthy_def split: prod.splits)
  have res: "addSource ex_imports ?c ex_request =
     ([CompilerVerify Func ex_request, IsProofDeployed ''SomeHASH'' ''some verifier'',
       IpfsWrite [(''N/A/main.fc'', ''main.fc'')], IpfsWriteFromContent [''good''],
       SignatureCell ex_payload],
      Inr \<lparr>compileResult = ?cr,
           sig = Some (bitString (ex_verifierIdHash @ ex_pub 1)),
           ipfsLink = Some ''good'',
           msgCell = Some (ex_message [ex_payload, ex_sigCell 1 []])\<rparr>)"
    unfolding run pub by simp
  have e: "cr_error ?cr \<noteq> None" and r: "cr_result ?cr = Similar"
    by (simp_all add: ex_compileResult_def)
  from e r res show ?thesis by (intro conjI)
qed

lemma ex_sign_recompiles:
  assumes "validateMessageCell_spec ex_protocol m ex_verifierIdHash (bitString ex_registry)
             (ex_key n) (ex_config q) = Inr ex_validated"
  shows "sign ex_imports (ex_controller n cr d q ''good'') m ''tmp'' =
    (if cr_result cr \<noteq> Similar
     then ([GetVerifierConfig ''some verifier'' (bitString ex_registry), ValidateMessageCell m,
            IpfsRead ''10'', IpfsRead ''src'', Mkdirp ''tmp'', WriteFile ''tmp/main.fc'' ''code'',
            CompilerVerify Func
              (sourceToVerify ex_imports (ex_record Func (bitString ex_codeHash))
                 [\<lparr>path = ''main.fc'',
                   stored = Some \<lparr>url = ''src'', compiled = Some \<lparr>filename = ''main.fc'', flags = []\<rparr>\<rparr>\<rparr>]
                 ''tmp'' (replicate 267 False))],
           Inl (InvalidCompilationResult (cr_result cr)))
     else ([GetVerifierConfig ''some verifier'' (bitString ex_registry), ValidateMessageCell m,
            IpfsRead ''10'', IpfsRead ''src'', Mkdirp ''tmp'', WriteFile ''tmp/main.fc'' ''code'',
            CompilerVerify Func
              (sourceToVerify ex_imports (ex_record Func (bitString ex_codeHash))
                 [\<lparr>path = ''main.fc'',
                   stored = Some \<lparr>url = ''src'', compiled = Some \<lparr>filename = ''main.fc'', flags = []\<rparr>\<rparr>\<rparr>]
                 ''tmp'' (replicate 267 False))] @
           fst (appendSignature ex_imports (ex_controller n cr d q ''good'') m),
           snd (appendSignature ex_imports (ex_controller n cr d q ''good'') m)))"
proof -
  let ?c = "ex_controller n cr d q ''good''"
  have v: "validateMessageCell ex_imports m (VERIFIER_SHA256 ?c)
      (sourcesRegistryAddress (config ?c)) (keypair ?c) (ex_config q) = Inr ex_validated"
    using assms by (simp only: ex_val)
  have eq: "si_hash (ex_record Func (bitString ex_codeHash)) = codeCellHash ex_validated"
    by (simp add: ex_record_sel ex_validated_sel)
  have cmp: "compilers ?c k p = Inr cr" for k p
    by (simp add: ex_controller_fields)
  show ?thesis
    using sign_compiler_answers [OF ex_cfg v ex_read ex_imports_fields(1) eq ex_downloads cmp]
    by (simp add: ex_controller_fields ex_record_sel ex_validated_sel)
qed

lemma ex_sign_rejects:
  assumes "validateMessageCell_spec ex_protocol m ex_verifierIdHash (bitString ex_registry)
             (ex_key n) (ex_config q) = Inl e"
  shows "sign ex_imports (ex_controller n cr d q doc) m tmpDir =
           ([GetVerifierConfig ''some verifier'' (bitString ex_registry), ValidateMessageCell m], Inl e)"
proof -
  let ?c = "ex_controller n cr d q doc"
  have v: "validateMessageCell ex_imports m (VERIFIER_SHA256 ?c)
      (sourcesRegistryAddress (config ?c)) (keypair ?c) (ex_config q) = Inl e"
    using assms by (simp only: ex_val)
  show ?thesis
    using sign_validation_fails [OF ex_cfg v, of tmpDir] by (simp add: ex_controller_fields)
qed

lemma ex_sign_mismatch:
  assumes "validateMessageCell_spec ex_protocol m ex_verifierIdHash (bitString ex_registry)
             (ex_key n) (ex_config q) = Inr ex_validated"
  shows "sign ex_imports (ex_controller n cr d q ''bad'') m tmpDir =
           ([GetVerifierConfig ''some verifier'' (bitString ex_registry), ValidateMessageCell m,
             IpfsRead ''10''], Inl CodeHashMismatch)"
proof -
  let ?c = "ex_controller n cr d q ''bad''"
  have v: "validateMessageCell ex_imports m (VERIFIER_SHA256 ?c)
      (sourcesRegistryAddress (config ?c)) (keypair ?c) (ex_config q) = Inr ex_validated"
    using assms by (simp only: ex_val)
  have ne: "si_hash (ex_record Func ''other'') \<noteq> codeCellHash ex_validated"
    by (simp add: ex_record_sel ex_validated_sel ex_other_hash)
  show ?thesis
    using sign_hash_mismatch [OF ex_cfg v ex_read ex_imports_fields(3) ne, of tmpDir]
    by (simp add: ex_controller_fields ex_validated_sel)
qed

text \<open>
  Three runs of verifier B, who is asked to co-sign the example message. The compiler
  answers "not similar" in all of them. With a forged signature in the chain and a
  stored record of another hash, the call fails with \<open>InvalidSignature\<close> and neither
  reads the storage nor compiles. With the same record and a valid chain it fails with
  \<open>CodeHashMismatch\<close>: the outcome depends on the validity of the chain. With a valid
  chain and the matching record, the recompilation that does not reproduce the hash is
  an \<open>InvalidCompilationResult\<close>.
\<close>

theorem sign_invalid_chain_decides_first:
  "sign ex_imports (ex_controller 2 (ex_compileResult NotSimilar None (Some ''h'')) False 3 ''bad'')
     (ex_message [ex_payload, ex_forgedCell 1]) ''tmp'' =
     ([GetVerifierConfig ''some verifier'' (bitString ex_registry),
       ValidateMessageCell (ex_message [ex_payload, ex_forgedCell 1])], Inl InvalidSignature)
   \<and> snd (sign ex_imports (ex_controller 2 (ex_compileResult NotSimilar None (Some ''h'')) False 3 ''bad'')
            (ex_message [ex_payload, ex_sigCell 1 []]) ''tmp'') = Inl CodeHashMismatch
   \<and> snd (sign ex_imports (ex_controller 2 (ex_compileResult NotSimilar None (Some ''h'')) False 3 ''good'')
            (ex_message [ex_payload, ex_sigCell 1 []]) ''tmp'') = Inl (InvalidCompilationResult NotSimilar)"
proof (intro conjI)
  show "sign ex_imports (ex_controller 2 (ex_compileResult NotSimilar None (Some ''h'')) False 3 ''bad'')
     (ex_message [ex_payload, ex_forgedCell 1]) ''tmp'' =
     ([GetVerifierConfig ''some verifier'' (bitString ex_registry),
       ValidateMessageCell (ex_message [ex_payload, ex_forgedCell 1])], Inl InvalidSignature)"
    by (rule ex_sign_rejects) (rule ex_valid_forged)
  show "snd (sign ex_imports (ex_controller 2 (ex_compileResult NotSimilar None (Some ''h'')) False 3 ''bad'')
            (ex_message [ex_payload, ex_sigCell 1 []]) ''tmp'') = Inl CodeHashMismatch"
    using ex_sign_mismatch [OF ex_valid_one [of "[]"], where cr = "ex_compileResult NotSimilar None (Some ''h'')"
        and d = False and tmpDir = "''tmp''"]
    by simp
  show "snd (sign ex_imports (ex_controller 2 (ex_compileResult NotSimilar None (Some ''h'')) False 3 ''good'')
            (ex_message [ex_payload, ex_sigCell 1 []]) ''tmp'') = Inl (InvalidCompilationResult NotSimilar)"
    using ex_sign_recompiles [OF ex_valid_one [of "[]"], where cr = "ex_compileResult NotSimilar None (Some ''h'')"
        and d = False]
    by (simp add: ex_compileResult_def)
qed

text \<open>
  Verifier B and the example message: the trace of the successful run starts with the
  configuration and the validation, a forged signature ends the call at the validation,
  and a recompilation that is not similar ends it with \<open>InvalidCompilationResult\<close>.
\<close>

theorem sign_validates_before_recompiling_witness:
  "(\<exists>rest. fst (sign ex_imports (ex_controller 2 (ex_compileResult Similar None (Some ''h'')) False 3 ''good'')
                 (ex_message [ex_payload, ex_sigCell 1 []]) ''tmp'') =
            GetVerifierConfig ''some verifier'' (bitString ex_registry) #
            ValidateMessageCell (ex_message [ex_payload, ex_sigCell 1 []]) # rest
          \<and> list_all (\<lambda>ev. \<not> isValidateMessageCell ev) rest)
   \<and> sign ex_imports (ex_controller 2 (ex_compileResult Similar None (Some ''h'')) False 3 ''good'')
       (ex_message [ex_payload, ex_forgedCell 1]) ''tmp'' =
       ([GetVerifierConfig ''some verifier'' (bitString ex_registry),
         ValidateMessageCell (ex_message [ex_payload, ex_forgedCell 1])], Inl InvalidSignature)
   \<and> snd (sign ex_imports (ex_controller 2 (ex_compileResult NotSimilar None (Some ''h'')) False 3 ''good'')
            (ex_message [ex_payload, ex_sigCell 1 []]) ''tmp'') = Inl (InvalidCompilationResult NotSimilar)"
proof -
  let ?m = "ex_message [ex_payload, ex_sigCell 1 []]"
  let ?f = "ex_message [ex_payload, ex_forgedCell 1]"
  let ?c = "ex_controller 2 (ex_compileResult Similar None (Some ''h'')) False 3 ''good''"
  let ?c' = "ex_controller 2 (ex_compileResult NotSimilar None (Some ''h'')) False 3 ''good''"
  note a = sign_validates_before_recompiling [OF ex_cfg, of ex_imports 2 _ False 3 "''good''" ?m "''tmp''",
      THEN conjunct1]
  note b = sign_validates_before_recompiling [OF ex_cfg, of ex_imports 2 _ False 3 "''good''" ?f "''tmp''",
      THEN conjunct2, THEN conjunct1, rule_format]
  note c = sign_validates_before_recompiling [OF ex_cfg, of ex_imports 2 _ False 3 "''good''" ?m "''tmp''",
      THEN conjunct2, THEN conjunct2, rule_format]
  have vf: "validateMessageCell ex_imports ?f (VERIFIER_SHA256 ?c)
      (sourcesRegistryAddress (config ?c)) (keypair ?c) (ex_config 3) = Inl InvalidSignature"
    by (simp only: ex_val ex_valid_forged)
  have vm: "validateMessageCell ex_imports ?m (VERIFIER_SHA256 ?c')
      (sourcesRegistryAddress (config ?c')) (keypair ?c') (ex_config 3) = Inr ex_validated"
    by (simp only: ex_val ex_valid_one)
  have eq: "si_hash (ex_record Func (bitString ex_codeHash)) = codeCellHash ex_validated"
    by (simp add: ex_record_sel ex_validated_sel)
  have cmp: "compilers ?c' k p = Inr (ex_compileResult NotSimilar None (Some ''h''))" for k p
    by (simp add: ex_controller_fields)
  have ns: "cr_result (ex_compileResult NotSimilar None (Some ''h'')) \<noteq> Similar"
    by (simp add: ex_compileResult_def)
  have 1: "\<exists>rest. fst (sign ex_imports ?c ?m ''tmp'') =
            GetVerifierConfig ''some verifier'' (bitString ex_registry) # ValidateMessageCell ?m # rest
          \<and> list_all (\<lambda>ev. \<not> isValidateMessageCell ev) rest"
    using a [of "ex_compileResult Similar None (Some ''h'')"] by (simp add: ex_controller_fields)
  have 2: "sign ex_imports ?c ?f ''tmp'' =
       ([GetVerifierConfig ''some verifier'' (bitString ex_registry), ValidateMessageCell ?f],
        Inl InvalidSignature)"
    using b [OF vf] by (simp add: ex_controller_fields)
  have 3: "snd (sign ex_imports ?c' ?m ''tmp'') = Inl (InvalidCompilationResult NotSimilar)"
    using c [of "ex_compileResult NotSimilar None (Some ''h'')" ex_validated "''good''"
        "ex_record Func (bitString ex_codeHash)"] vm ex_read ex_imports_fields(1) eq ex_downloads cmp ns
    by (simp add: ex_compileResult_def)
  from 1 2 3 show ?thesis by (intro conjI)
qed



text \<open>
  With a quorum of one, a chain with a forged signature and a chain with a valid one are
  rejected alike.
\<close>

theorem quorum_too_small_before_signatures_witness:
  "validateSignatures ex_protocol (ex_config 1) ex_verifierIdHash (ex_forgedCell 1) = Inl QuorumTooSmall
   \<and> validateMessageCell_spec ex_protocol (ex_message [ex_payload, ex_forgedCell 1]) ex_verifierIdHash
       (bitString ex_registry) (ex_key 2) (ex_config 1) = Inl QuorumTooSmall
   \<and> validateMessageCell_spec ex_protocol (ex_message [ex_payload, ex_sigCell 1 []]) ex_verifierIdHash
       (bitString ex_registry) (ex_key 2) (ex_config 1) = Inl QuorumTooSmall"
proof -
  have q: "quorum (ex_config 1) \<le> 1" by simp
  note t = quorum_too_small_before_signatures [OF q, of ex_protocol ex_verifierIdHash "ex_forgedCell 1"]
  from t have a: "validateSignatures ex_protocol (ex_config 1) ex_verifierIdHash (ex_forgedCell 1) =
      Inl QuorumTooSmall" by blast
  from t ex_envelope [of "ex_forgedCell 1" "[]"]
  have b: "validateMessageCell_spec ex_protocol (ex_message [ex_payload, ex_forgedCell 1]) ex_verifierIdHash
       (bitString ex_registry) (ex_key 2) (ex_config 1) = Inl QuorumTooSmall" by blast
  from t ex_envelope [of "ex_sigCell 1 []" "[]"]
  have c: "validateMessageCell_spec ex_protocol (ex_message [ex_payload, ex_sigCell 1 []]) ex_verifierIdHash
       (bitString ex_registry) (ex_key 2) (ex_config 1) = Inl QuorumTooSmall" by blast
  from a b c show ?thesis by (intro conjI)
qed


lemma ex_sign_recompiles_tolk:
  assumes "validateMessageCell_spec ex_protocol m ex_verifierIdHash (bitString ex_registry)
             (ex_key n) (ex_config q) = Inr ex_validated"
    and "cr_result cr = Similar"
  shows "sign ex_imports (ex_controller n cr d q ''tolk'') m ''tmp'' =
     ([GetVerifierConfig ''some verifier'' (bitString ex_registry), ValidateMessageCell m,
       IpfsRead ''10'', IpfsRead ''src'', Mkdirp ''tmp'', WriteFile ''tmp/main.fc'' ''code'',
       CompilerVerify Tolk
         (sourceToVerify ex_imports (ex_record Tolk (bitString ex_codeHash))
            [\<lparr>path = ''main.fc'',
              stored = Some \<lparr>url = ''src'', compiled = Some \<lparr>filename = ''main.fc'', flags = []\<rparr>\<rparr>\<rparr>]
            ''tmp'' (replicate 267 False))] @
      fst (appendSignature ex_imports (ex_controller n cr d q ''tolk'') m),
      snd (appendSignature ex_imports (ex_controller n cr d q ''tolk'') m))"
proof -
  let ?c = "ex_controller n cr d q ''tolk''"
  have v: "validateMessageCell ex_imports m (VERIFIER_SHA256 ?c)
      (sourcesRegistryAddress (config ?c)) (keypair ?c) (ex_config q) = Inr ex_validated"
    using assms(1) by (simp only: ex_val)
  have eq: "si_hash (ex_record Tolk (bitString ex_codeHash)) = codeCellHash ex_validated"
    by (simp add: ex_record_sel ex_validated_sel)
  have cmp: "compilers ?c k p = Inr cr" for k p
    by (simp add: ex_controller_fields)
  show ?thesis
    using sign_compiler_answers [OF ex_cfg v ex_read ex_imports_fields(2) eq ex_downloads cmp] assms(2)
    by (simp add: ex_controller_fields ex_record_sel ex_validated_sel)
qed

text \<open>
  The stored command line \<open>func -SPA main.fc\<close> reaches the compiler as \<open> -SPA main.fc\<close>,
  next to the unchanged \<open>funcVersion\<close>; a command line \<open>tolk -v\<close> would be replayed as it is.
\<close>

theorem sign_replays_command_line_without_func_witness:
  "(\<exists>payload rest.
      fst (sign ex_imports (ex_controller 2 (ex_compileResult Similar None (Some ''h'')) False 3 ''good'')
             (ex_message [ex_payload, ex_sigCell 1 []]) ''tmp'') =
        [GetVerifierConfig ''some verifier'' (bitString ex_registry),
         ValidateMessageCell (ex_message [ex_payload, ex_sigCell 1 []]), IpfsRead ''10''] @
        [IpfsRead ''src'', Mkdirp ''tmp'', WriteFile ''tmp/main.fc'' ''code''] @
        CompilerVerify Func payload # rest
      \<and> otherSettings (p_compilerSettings payload) = [(''funcVersion'', ''0.4.0'')]
      \<and> commandLine (p_compilerSettings payload) = Some '' -SPA main.fc'')
   \<and> replaceFunc ''tolk -v'' = ''tolk -v''"
proof -
  let ?c = "ex_controller 2 (ex_compileResult Similar None (Some ''h'')) False 3 ''good''"
  let ?m = "ex_message [ex_payload, ex_sigCell 1 []]"
  let ?json = "ex_record Func (bitString ex_codeHash)"
  have v: "validateMessageCell ex_imports ?m (VERIFIER_SHA256 ?c)
      (sourcesRegistryAddress (config ?c)) (keypair ?c) (ex_config 3) = Inr ex_validated"
    by (simp only: ex_val ex_valid_one)
  have eq: "si_hash ?json = codeCellHash ex_validated"
    by (simp add: ex_record_sel ex_validated_sel)
  note t = sign_replays_command_line_without_func
      [OF ex_cfg v ex_read ex_imports_fields(1) eq ex_downloads]
  from t obtain payload rest where
    tr: "fst (sign ex_imports ?c ?m ''tmp'') =
       [GetVerifierConfig (verifierId (config ?c)) (sourcesRegistryAddress (config ?c)),
        ValidateMessageCell ?m, IpfsRead (ipfsPointer ex_validated)] @
       [IpfsRead ''src'', Mkdirp ''tmp'', WriteFile ''tmp/main.fc'' ''code''] @
       CompilerVerify (si_compiler ?json) payload # rest"
    and oth: "otherSettings (p_compilerSettings payload) =
       (case si_compilerSettings ?json of None \<Rightarrow> [] | Some cs \<Rightarrow> otherSettings cs)"
    and cmd: "commandLine (p_compilerSettings payload) =
       (case si_compilerSettings ?json of
          None \<Rightarrow> None
        | Some cs \<Rightarrow>
            (case commandLine cs of
               None \<Rightarrow> None
             | Some cmd \<Rightarrow> Some (if take 4 cmd = compilerName Func then drop 4 cmd else cmd)))"
    and nm: "\<forall>k cmd. k \<noteq> Func \<longrightarrow> replaceFunc (compilerName k @ cmd) = compilerName k @ cmd"
    by blast
  from tr have tr': "fst (sign ex_imports ?c ?m ''tmp'') =
       [GetVerifierConfig ''some verifier'' (bitString ex_registry),
        ValidateMessageCell ?m, IpfsRead ''10''] @
       [IpfsRead ''src'', Mkdirp ''tmp'', WriteFile ''tmp/main.fc'' ''code''] @
       CompilerVerify Func payload # rest"
    by (simp only: ex_controller_fields ex_validated_sel ex_record_sel)
  from oth have oth': "otherSettings (p_compilerSettings payload) = [(''funcVersion'', ''0.4.0'')]"
    by (simp add: ex_record_sel)
  from cmd have cmd': "commandLine (p_compilerSettings payload) = Some '' -SPA main.fc''"
    by (simp add: ex_record_sel)
  from nm have "replaceFunc (compilerName Tolk @ '' -v'') = compilerName Tolk @ '' -v''"
    by blast
  then have tk: "replaceFunc ''tolk -v'' = ''tolk -v''" by simp
  from tr' oth' cmd' tk show ?thesis by blast
qed

text \<open>
  Verifier B co-signs the example message when the stored record names the compiler
  \<open>tolk\<close> and holds the command line \<open>func -SPA main.fc\<close>: the Tolk compiler is called
  with the command line \<open> -SPA main.fc\<close>, so the removal is not confined to records of
  the FunC compiler. Nor is it confined to a whole word: of \<open>functions.fc -o out\<close> the
  rule leaves \<open>tions.fc -o out\<close>.
\<close>

theorem sign_strips_func_for_tolk_record:
  "json_parse ex_imports ''tolk'' = Inr (ex_record Tolk (bitString ex_codeHash))
   \<and> si_compiler (ex_record Tolk (bitString ex_codeHash)) = Tolk
   \<and> si_compilerSettings (ex_record Tolk (bitString ex_codeHash)) =
       Some \<lparr>commandLine = Some ''func -SPA main.fc'', otherSettings = [(''funcVersion'', ''0.4.0'')]\<rparr>
   \<and> fst (sign ex_imports (ex_controller 2 (ex_compileResult Similar None (Some ''h'')) False 3 ''tolk'')
            (ex_message [ex_payload, ex_sigCell 1 []]) ''tmp'') =
       [GetVerifierConfig ''some verifier'' (bitString ex_registry),
        ValidateMessageCell (ex_message [ex_payload, ex_sigCell 1 []]),
        IpfsRead ''10'', IpfsRead ''src'', Mkdirp ''tmp'', WriteFile ''tmp/main.fc'' ''code'',
        CompilerVerify Tolk
          (sourceToVerify ex_imports (ex_record Tolk (bitString ex_codeHash))
             [\<lparr>path = ''main.fc'',
               stored = Some \<lparr>url = ''src'', compiled = Some \<lparr>filename = ''main.fc'', flags = []\<rparr>\<rparr>\<rparr>]
             ''tmp'' (replicate 267 False)),
        SignatureCell ex_payload]
   \<and> commandLine (p_compilerSettings
        (sourceToVerify ex_imports (ex_record Tolk (bitString ex_codeHash))
           [\<lparr>path = ''main.fc'',
             stored = Some \<lparr>url = ''src'', compiled = Some \<lparr>filename = ''main.fc'', flags = []\<rparr>\<rparr>\<rparr>]
           ''tmp'' (replicate 267 False))) = Some '' -SPA main.fc''
   \<and> replaceFunc ''functions.fc -o out'' = ''tions.fc -o out''"
proof -
  have sim: "cr_result (ex_compileResult Similar None (Some ''h'')) = Similar"
    by (simp add: ex_compileResult_def)
  have run: "fst (sign ex_imports (ex_controller 2 (ex_compileResult Similar None (Some ''h'')) False 3 ''tolk'')
            (ex_message [ex_payload, ex_sigCell 1 []]) ''tmp'') =
       [GetVerifierConfig ''some verifier'' (bitString ex_registry),
        ValidateMessageCell (ex_message [ex_payload, ex_sigCell 1 []]),
        IpfsRead ''10'', IpfsRead ''src'', Mkdirp ''tmp'', WriteFile ''tmp/main.fc'' ''code'',
        CompilerVerify Tolk
          (sourceToVerify ex_imports (ex_record Tolk (bitString ex_codeHash))
             [\<lparr>path = ''main.fc'',
               stored = Some \<lparr>url = ''src'', compiled = Some \<lparr>filename = ''main.fc'', flags = []\<rparr>\<rparr>\<rparr>]
             ''tmp'' (replicate 267 False)),
        SignatureCell ex_payload]"
    using ex_sign_recompiles_tolk [OF ex_valid_one [of "[]"] sim, of False]
    by (simp add: ex_appendSignature)
  have cmd: "commandLine (p_compilerSettings
        (sourceToVerify ex_imports (ex_record Tolk (bitString ex_codeHash))
           [\<lparr>path = ''main.fc'',
             stored = Some \<lparr>url = ''src'', compiled = Some \<lparr>filename = ''main.fc'', flags = []\<rparr>\<rparr>\<rparr>]
           ''tmp'' (replicate 267 False))) = Some '' -SPA main.fc''"
    by (simp add: sourceToVerify_def replaySettings_def replaceFunc_def ex_record_sel)
  have word: "replaceFunc ''functions.fc -o out'' = ''tions.fc -o out''"
    by (simp add: replaceFunc_def)
  from ex_imports_fields(2) ex_record_sel(2,4) run cmd word show ?thesis by (intro conjI)
qed

end
